theory Spec2Isabelle
  imports
    Complex_Main
    "HOL-Library.AList"
    "HOL-Library.Char_ord"
    "HOL-Library.List_Lexorder"
    "HOL-Library.Multiset"
begin

section \<open>JavaScript values and containers\<close>

text \<open>
  Numbers are modelled as exact rationals: sums, products and comparisons are those of
  the source, without the rounding of IEEE doubles. A table cell that the source coerces
  with \<^verbatim>\<open>Number(x) || 0\<close> is a \<open>rat option\<close>: \<open>None\<close> stands for a blank, null or
  non-numeric cell. Strings are \<open>string\<close>; in the columns \<^verbatim>\<open>Status Tr\<close>, \<^verbatim>\<open>Date\<close>,
  \<^verbatim>\<open>Sh_name_eng\<close> and \<^verbatim>\<open>Sector\<close> the empty string also stands for a null or missing
  cell (both are falsy in the source's tests).
  A JavaScript \<^verbatim>\<open>Map\<close> is an association list in insertion order: \<^verbatim>\<open>get\<close> is
  \<^const>\<open>map_of\<close>, \<^verbatim>\<open>set\<close> is \<^const>\<open>AList.update\<close> (in place for a known key, appended
  for a new one), \<^verbatim>\<open>delete\<close> is \<^const>\<open>AList.delete\<close>.
\<close>

definition numberOr0 :: "rat option \<Rightarrow> rat" where
  \<comment> \<open>\<^verbatim>\<open>Number(x) || 0\<close>\<close>
  "numberOr0 c = (case c of None \<Rightarrow> 0 | Some r \<Rightarrow> r)"

definition numberOr1 :: "rat option \<Rightarrow> rat" where
  \<comment> \<open>\<^verbatim>\<open>Number(x) || 1.0\<close>: zero is falsy, so it is replaced too\<close>
  "numberOr1 c = (case c of None \<Rightarrow> 1 | Some r \<Rightarrow> if r = 0 then 1 else r)"

definition strOr :: "string \<Rightarrow> string \<Rightarrow> string" where
  \<comment> \<open>\<^verbatim>\<open>s || d\<close> on strings\<close>
  "strOr s d = (if s = [] then d else s)"

text \<open>
  The rows come from Papa Parse with \<^verbatim>\<open>dynamicTyping\<close>, whatever the interfaces
  declare: a cell that reads as a number is a number, an empty cell is \<^verbatim>\<open>null\<close>, and
  a column that the row lacks is \<^verbatim>\<open>undefined\<close>. The \<^verbatim>\<open>Symbol\<close> and \<^verbatim>\<open>Account\<close>
  cells, which the source uses as keys and on which it calls string methods, are
  modelled with these four cases. A number cell is given by the string that
  \<^verbatim>\<open>String\<close> yields for it: the source never computes with such a cell, and two numbers
  are the same key of a \<^verbatim>\<open>Map\<close>, and equal for \<^verbatim>\<open>===\<close>, exactly when these strings are
  equal. Boolean cells (\<^verbatim>\<open>true\<close>, \<^verbatim>\<open>false\<close>) and \<^verbatim>\<open>Date\<close> cells (ISO date-times)
  are left out.
\<close>

datatype cell = Text string | Number string | Null | Missing

definition cellString :: "cell \<Rightarrow> string" where
  \<comment> \<open>\<^verbatim>\<open>`${c}`\<close>\<close>
  "cellString c =
     (case c of Text s \<Rightarrow> s | Number s \<Rightarrow> s | Null \<Rightarrow> ''null'' | Missing \<Rightarrow> ''undefined'')"

definition truthy :: "cell \<Rightarrow> bool" where
  \<comment> \<open>the cell as a condition: the empty string, \<^verbatim>\<open>0\<close>, \<^verbatim>\<open>null\<close> and \<^verbatim>\<open>undefined\<close>
      are falsy\<close>
  "truthy c \<longleftrightarrow>
     (case c of Text s \<Rightarrow> s \<noteq> [] | Number s \<Rightarrow> s \<noteq> ''0'' | Null \<Rightarrow> False | Missing \<Rightarrow> False)"

text \<open>
  \<^verbatim>\<open>new Date(s).getTime()\<close> belongs to the JavaScript runtime; it is a parameter
  \<open>getTime :: string \<Rightarrow> int option\<close> of every function that parses dates, \<open>None\<close> for
  an invalid date (\<^verbatim>\<open>NaN\<close>). Every comparison with \<^verbatim>\<open>NaN\<close> is false.
\<close>

definition timeLess :: "(string \<Rightarrow> int option) \<Rightarrow> string \<Rightarrow> string \<Rightarrow> bool" where
  \<comment> \<open>\<^verbatim>\<open>new Date(a).getTime() - new Date(b).getTime() < 0\<close>, also \<^verbatim>\<open>new Date(b) > new Date(a)\<close>\<close>
  "timeLess getTime a b =
     (case getTime a of None \<Rightarrow> False
      | Some x \<Rightarrow> (case getTime b of None \<Rightarrow> False | Some y \<Rightarrow> x < y))"

text \<open>
  \<^verbatim>\<open>Array.prototype.sort(cmp)\<close> is a stable sort. \<open>precedes a b\<close> says that
  \<^verbatim>\<open>cmp(a, b) < 0\<close>. Where the comparator is inconsistent (a \<^verbatim>\<open>NaN\<close> result) the
  order of the source is implementation-defined; the model then treats the result as
  "not less".
\<close>

fun insortCmp :: "('a \<Rightarrow> 'a \<Rightarrow> bool) \<Rightarrow> 'a \<Rightarrow> 'a list \<Rightarrow> 'a list" where
  "insortCmp precedes x [] = [x]"
| "insortCmp precedes x (y # ys) =
     (if precedes y x then y # insortCmp precedes x ys else x # y # ys)"

definition sortCmp :: "('a \<Rightarrow> 'a \<Rightarrow> bool) \<Rightarrow> 'a list \<Rightarrow> 'a list" where
  "sortCmp precedes xs = foldr (insortCmp precedes) xs []"

fun splitWhere :: "(char \<Rightarrow> bool) \<Rightarrow> string \<Rightarrow> string list" where
  \<comment> \<open>\<^verbatim>\<open>s.split(sep)\<close> for a separator that matches single characters\<close>
  "splitWhere sep [] = [[]]"
| "splitWhere sep (x # xs) =
     (if sep x then [] # splitWhere sep xs
      else (case splitWhere sep xs of [] \<Rightarrow> [[x]] | w # ws \<Rightarrow> (x # w) # ws))"

definition splitOn :: "char \<Rightarrow> string \<Rightarrow> string list" where
  "splitOn c s = splitWhere (\<lambda>x. x = c) s"

definition groupPush :: "string \<Rightarrow> 'a \<Rightarrow> (string \<times> 'a list) list \<Rightarrow> (string \<times> 'a list) list" where
  \<comment> \<open>\<^verbatim>\<open>if (!m.has(k)) m.set(k, []); m.get(k).push(x)\<close>\<close>
  "groupPush k x m =
     AList.update k ((case map_of m k of None \<Rightarrow> [] | Some g \<Rightarrow> g) @ [x]) m"

definition groupBy :: "('a \<Rightarrow> string) \<Rightarrow> 'a list \<Rightarrow> (string \<times> 'a list) list" where
  "groupBy key xs = foldl (\<lambda>m x. groupPush (key x) x m) [] xs"

section \<open>Data model\<close>

text \<open>
  The rows and results follow the interfaces of the source (\<^verbatim>\<open>Transaction\<close>,
  \<^verbatim>\<open>Symbol\<close>, \<^verbatim>\<open>Quote\<close>, \<^verbatim>\<open>Holding\<close>, \<^verbatim>\<open>PortfolioData\<close>), with the fields that
  the modelled functions read. Several interfaces share field names, so
  each field carries a letter for its record: \<open>t_Symbol\<close> is \<^verbatim>\<open>Symbol\<close> of a
  transaction, \<open>q_Symbol\<close> that of a quote, \<open>t_StatusTr\<close> is \<^verbatim>\<open>"Status Tr"\<close>.
\<close>

record transaction =
  t_StatusTr :: string
  t_Symbol :: cell
  t_Account :: cell
  t_Date :: string
  t_NetPrice :: "rat option"
  t_CashImpact :: "rat option"
  t_QtyChange :: "rat option"
  t_CostChange :: "rat option"
  t_Realized3 :: "rat option"
  t_Sh_name_eng :: string
  t_Db :: "rat option"

record symbol_info =
  s_Symbol :: cell
  s_Sh_name_eng :: string
  s_Sector :: string

record quote =
  q_Date :: string
  q_Close :: rat
  q_Symbol :: cell

record holding =
  h_Symbol :: string
  h_Account :: string
  h_Name :: string
  h_Sector :: string
  h_Status :: string
  h_Quantity :: rat
  h_Cost :: rat
  h_TotalCost :: rat
  h_AvgCost :: rat
  h_Price :: rat
  h_Value :: rat
  h_UnrealizedGain :: rat
  h_UnrealizedGainPct :: rat
  h_RealizedGain :: rat
  h_RealizedGainPct :: rat
  h_TotalReturn :: rat
  h_TotalReturnPct :: rat
  h_Db :: rat
  h_cashBalance :: rat

text \<open>
  A point of a time series. The per-account points carry \<open>p_account\<close>, the merged
  points carry \<open>p_accountValues\<close>; the source types both as \<^verbatim>\<open>any\<close>. An absent
  \<open>p_account\<close> is the empty string, an absent \<open>p_accountValues\<close> the empty list, an
  \<^verbatim>\<open>undefined\<close> \<open>p_hasQuotes\<close> is \<open>False\<close>.
\<close>

record ts_point =
  p_date :: string
  p_cashValue :: rat
  p_equityValue :: rat
  p_totalValue :: rat
  p_realizedGain :: rat
  p_unrealizedGain :: rat
  p_egx30 :: rat
  p_hasQuotes :: bool
  p_account :: string
  p_accountValues :: "(string \<times> rat) list"

record summary_metrics =
  m_totalValue :: rat
  m_cashBalance :: rat
  m_equityValue :: rat
  m_realizedGain :: rat
  m_unrealizedGain :: rat

record account_data =
  a_name :: string
  a_currentHoldings :: "holding list"
  a_closedPositions :: "holding list"
  a_timeSeriesData :: "ts_point list"
  a_summaryMetrics :: summary_metrics

record portfolio_data =
  pd_accounts :: "account_data list"
  pd_currentHoldings :: "holding list"
  pd_closedPositions :: "holding list"
  pd_timeSeriesData :: "ts_point list"
  pd_transactions :: "transaction list"
  pd_summaryMetrics :: summary_metrics
  pd_quotes :: "quote list option"
  pd_latestQuotes :: "(cell \<times> quote) list option"


text \<open>
  The result of a division that the source does not guard: JavaScript yields
  \<^verbatim>\<open>Infinity\<close>, \<^verbatim>\<open>-Infinity\<close> or \<^verbatim>\<open>NaN\<close> when the divisor is zero.
\<close>

datatype jsnum = Finite rat | PosInfinity | NegInfinity | NaN

definition jsDiv :: "rat \<Rightarrow> rat \<Rightarrow> jsnum" where
  "jsDiv a b =
     (if b \<noteq> 0 then Finite (a / b)
      else if a = 0 then NaN
      else if a > 0 then PosInfinity else NegInfinity)"

definition jsTimes :: "jsnum \<Rightarrow> rat \<Rightarrow> jsnum" where
  \<comment> \<open>\<^verbatim>\<open>x * c\<close> for a finite positive constant \<open>c\<close>\<close>
  "jsTimes x c = (case x of Finite r \<Rightarrow> Finite (r * c) | other \<Rightarrow> other)"

text \<open>
  A row of the current-holdings table after \<^verbatim>\<open>aggregatedHoldings\<close>: the spread copy
  of a holding (\<open>g_base\<close>) with the six fields that the reducer overwrites.
\<close>

record agg_holding =
  g_base :: holding
  g_Quantity :: rat
  g_Value :: rat
  g_Cost :: rat
  g_UnrealizedGain :: rat
  g_AvgCost :: jsnum
  g_UnrealizedGainPct :: jsnum

section \<open>Reference indexes\<close>

definition symbolMapOf :: "symbol_info list \<Rightarrow> (cell \<times> symbol_info) list" where
  \<comment> \<open>\<^verbatim>\<open>symbols.forEach((symbol) => symbolMap.set(symbol.Symbol, symbol))\<close>\<close>
  "symbolMapOf symbols = foldl (\<lambda>m s. AList.update (s_Symbol s) s m) [] symbols"

definition latestQuoteStep ::
  "(string \<Rightarrow> int option) \<Rightarrow> (cell \<times> quote) list \<Rightarrow> quote \<Rightarrow> (cell \<times> quote) list" where
  "latestQuoteStep getTime m q =
     (case map_of m (q_Symbol q) of
        None \<Rightarrow> AList.update (q_Symbol q) q m
      | Some existing \<Rightarrow>
          if timeLess getTime (q_Date existing) (q_Date q)
          then AList.update (q_Symbol q) q m else m)"

definition latestQuotesOf :: "(string \<Rightarrow> int option) \<Rightarrow> quote list \<Rightarrow> (cell \<times> quote) list" where
  "latestQuotesOf getTime quotes = foldl (latestQuoteStep getTime) [] quotes"

section \<open>Position aggregator and holding valuator: \<^verbatim>\<open>processHoldings\<close>\<close>

definition holdingKey :: "transaction \<Rightarrow> string" where
  \<comment> \<open>\<^verbatim>\<open>`${symbol}-${account}`\<close> with \<^verbatim>\<open>account = transaction.Account || "Unknown"\<close>\<close>
  "holdingKey t =
     cellString (t_Symbol t) @ ''-'' @
     (if truthy (t_Account t) then cellString (t_Account t) else ''Unknown'')"

definition cashBalanceOfHoldings :: "transaction list \<Rightarrow> rat" where
  "cashBalanceOfHoldings transactions =
     foldl (\<lambda>total t.
        if t_StatusTr t \<noteq> ''Time Deposit'' then total + numberOr0 (t_CashImpact t) else total)
       0 transactions"

definition sumField :: "(transaction \<Rightarrow> rat option) \<Rightarrow> transaction list \<Rightarrow> rat" where
  \<comment> \<open>\<^verbatim>\<open>let acc = 0; transactions.forEach((t) => { acc += Number(t[field]) || 0 })\<close>\<close>
  "sumField field transactions = foldl (\<lambda>acc t. acc + numberOr0 (field t)) 0 transactions"

definition displayStatusOf :: "string option \<Rightarrow> string" where
  \<comment> \<open>the normalised \<^verbatim>\<open>statusType\<close>; \<^verbatim>\<open>undefined\<close> reads as the empty (falsy) string\<close>
  "displayStatusOf statusType =
     (case statusType of
        None \<Rightarrow> []
      | Some s \<Rightarrow> if s = ''Cleared-RE'' \<or> s = ''Clered -RE'' then ''Cleared'' else s)"

definition holdingOfGroup ::
  "(string \<Rightarrow> int option) \<Rightarrow> (cell \<times> symbol_info) list \<Rightarrow> (cell \<times> quote) list \<Rightarrow>
   string option \<Rightarrow> bool \<Rightarrow> rat \<Rightarrow> string \<times> transaction list \<Rightarrow> holding option" where
  \<comment> \<open>the body of \<^verbatim>\<open>symbolAccountGroups.forEach\<close>; \<open>None\<close> when nothing is pushed.
      \<^verbatim>\<open>symbol\<close> is a part of the key, a string, and the two maps are read at that
      string\<close>
  "holdingOfGroup getTime symbolMap latestQuotes statusType includeZeroQuantity cashBalance kg =
     (let parts = splitOn CHR ''-'' (fst kg);
          symbol = (case parts of [] \<Rightarrow> [] | s # _ \<Rightarrow> s);
          account = (case parts of _ # a # _ \<Rightarrow> a | _ \<Rightarrow> []);
          transactions = sortCmp (\<lambda>a b. timeLess getTime (t_Date a) (t_Date b)) (snd kg);
          quantity = sumField t_QtyChange transactions;
          totalDebit = sumField t_Db transactions;
          costChangeSum = sumField t_CostChange transactions;
          cumulativeRealizedReturn = sumField t_Realized3 transactions;
          openCost = costChangeSum + cumulativeRealizedReturn;
          symbolInfo = (case map_of symbolMap (Text symbol) of
                          Some i \<Rightarrow> i
                        | None \<Rightarrow> \<lparr>s_Symbol = Text symbol, s_Sh_name_eng = symbol,
                                   s_Sector = ''Unknown''\<rparr>);
          price = (case map_of latestQuotes (Text symbol) of Some q \<Rightarrow> q_Close q | None \<Rightarrow> 0);
          value = quantity * price;
          unrealizedGain = (if includeZeroQuantity then 0 else value - openCost);
          totalReturn = (if includeZeroQuantity then cumulativeRealizedReturn
                         else cumulativeRealizedReturn + unrealizedGain);
          absDebit = \<bar>totalDebit\<bar>;
          totalReturnPct = (if absDebit \<noteq> 0 then (totalReturn / absDebit) * 100 else 0);
          unrealizedGainPct = (if absDebit \<noteq> 0 then (unrealizedGain / absDebit) * 100 else 0);
          realizedGainPct =
            (if absDebit \<noteq> 0 then (cumulativeRealizedReturn / absDebit) * 100 else 0);
          displayStatus = displayStatusOf statusType
      in if includeZeroQuantity \<or> \<bar>quantity\<bar> > 1 / 10000 then
           Some \<lparr>h_Symbol = symbol,
                 h_Account = account,
                 h_Name = strOr (s_Sh_name_eng symbolInfo) symbol,
                 h_Sector = strOr (s_Sector symbolInfo) ''Unknown'',
                 h_Status = strOr displayStatus
                              (case transactions of [] \<Rightarrow> [] | t # _ \<Rightarrow> t_StatusTr t),
                 h_Quantity = quantity,
                 h_Cost = openCost,
                 h_TotalCost = costChangeSum,
                 h_AvgCost = (if \<bar>quantity\<bar> > 1 / 10000 then \<bar>openCost / quantity\<bar> else 0),
                 h_Price = price,
                 h_Value = value,
                 h_UnrealizedGain = unrealizedGain,
                 h_UnrealizedGainPct = unrealizedGainPct,
                 h_RealizedGain = cumulativeRealizedReturn,
                 h_RealizedGainPct = realizedGainPct,
                 h_TotalReturn = totalReturn,
                 h_TotalReturnPct = totalReturnPct,
                 h_Db = totalDebit,
                 h_cashBalance = cashBalance\<rparr>
         else None)"

definition processHoldings ::
  "(string \<Rightarrow> int option) \<Rightarrow> transaction list \<Rightarrow> (cell \<times> symbol_info) list \<Rightarrow>
   (cell \<times> quote) list \<Rightarrow> string option \<Rightarrow> bool \<Rightarrow> holding list" where
  "processHoldings getTime transactions symbolMap latestQuotes statusType includeZeroQuantity =
     (let cashBalance = cashBalanceOfHoldings transactions;
          symbolAccountGroups = groupBy holdingKey transactions;
          holdings = List.map_filter
             (holdingOfGroup getTime symbolMap latestQuotes statusType includeZeroQuantity
                cashBalance)
             symbolAccountGroups
      in map (\<lambda>h. h\<lparr>h_cashBalance := cashBalance\<rparr>) holdings)"

section \<open>Open deposits component: \<^verbatim>\<open>openDeposits\<close>\<close>


definition latestFirst :: "(string \<Rightarrow> int option) \<Rightarrow> quote list \<Rightarrow> quote list" where
  \<comment> \<open>\<^verbatim>\<open>qs.sort((a, b) => new Date(b.Date).getTime() - new Date(a.Date).getTime())\<close>\<close>
  "latestFirst getTime qs = sortCmp (\<lambda>a b. timeLess getTime (q_Date b) (q_Date a)) qs"

definition openDepositsPrice ::
  "(string \<Rightarrow> int option) \<Rightarrow> (cell \<times> quote) list option \<Rightarrow> quote list option \<Rightarrow>
   cell \<Rightarrow> rat option \<Rightarrow> rat \<times> string" where
  \<comment> \<open>the price block of \<^verbatim>\<open>openDeposits\<close>: the price and its \<^verbatim>\<open>priceSource\<close>\<close>
  "openDepositsPrice getTime latestQuotes quotes exactSymbol netPrice =
     (let p0 = (0, ''default'');
          p1 = (case latestQuotes of
                  None \<Rightarrow> p0
                | Some lq \<Rightarrow>
                    (case map_of lq exactSymbol of
                       None \<Rightarrow> p0
                     | Some quote \<Rightarrow>
                         if q_Close quote \<noteq> 0 \<and> q_Close quote > 0
                         then (q_Close quote, ''latestQuotes'') else p0));
          p2 = (if fst p1 = 0 then
                  (case quotes of
                     None \<Rightarrow> p1
                   | Some qs \<Rightarrow>
                       (let matchingQuotes =
                              filter (\<lambda>q. q_Symbol q = exactSymbol \<and> q_Close q \<noteq> 0 \<and> q_Close q > 0) qs
                        in case latestFirst getTime matchingQuotes of
                             [] \<Rightarrow> p1
                           | latestQuote # _ \<Rightarrow> (q_Close latestQuote, ''quotes array'')))
                else p1)
      in if fst p2 = 0 then (numberOr1 netPrice, ''transaction Net Price'') else p2)"



section \<open>Current-holdings component: \<^verbatim>\<open>aggregatedHoldings\<close>\<close>

definition aggregateStep ::
  "(string \<times> agg_holding) list \<Rightarrow> holding \<Rightarrow> (string \<times> agg_holding) list" where
  \<comment> \<open>the reducer; the keys of \<^verbatim>\<open>acc\<close> are kept in insertion order\<close>
  "aggregateStep acc holding =
     (let old = (case map_of acc (h_Symbol holding) of
                   Some e \<Rightarrow> e
                 | None \<Rightarrow> \<lparr>g_base = holding, g_Quantity = 0, g_Value = 0, g_Cost = 0,
                            g_UnrealizedGain = 0,
                            g_AvgCost = Finite (h_AvgCost holding),
                            g_UnrealizedGainPct = Finite (h_UnrealizedGainPct holding)\<rparr>);
          quantity = g_Quantity old + h_Quantity holding;
          value = g_Value old + h_Value holding;
          cost = g_Cost old + h_Cost holding;
          unrealizedGain = g_UnrealizedGain old + h_UnrealizedGain holding
      in AList.update (h_Symbol holding)
           (old\<lparr>g_Quantity := quantity, g_Value := value, g_Cost := cost,
                 g_UnrealizedGain := unrealizedGain,
                 g_AvgCost := jsDiv cost quantity,
                 g_UnrealizedGainPct := jsTimes (jsDiv unrealizedGain cost) 100\<rparr>)
           acc)"

definition aggregatedHoldings :: "holding list \<Rightarrow> string \<Rightarrow> agg_holding list" where
  "aggregatedHoldings filteredHoldings selectedAccount =
     (if selectedAccount = ''all''
      then map snd (foldl aggregateStep [] filteredHoldings)
      else map (\<lambda>h. \<lparr>g_base = h, g_Quantity = h_Quantity h, g_Value = h_Value h,
                      g_Cost = h_Cost h, g_UnrealizedGain = h_UnrealizedGain h,
                      g_AvgCost = Finite (h_AvgCost h),
                      g_UnrealizedGainPct = Finite (h_UnrealizedGainPct h)\<rparr>)
             filteredHoldings)"

section \<open>Time-series reconstructor: \<^verbatim>\<open>processTimeSeriesData\<close>\<close>

record holding_state =
  hs_quantity :: rat
  hs_costChangeSum :: rat
  hs_cumulativeRealizedReturn :: rat
  hs_totalDebit :: rat
  hs_lastKnownPrice :: rat

text \<open>The variables that the replay loop carries from one date to the next.\<close>

record replay_state =
  st_cashBalance :: rat
  st_holdings :: "(cell \<times> holding_state) list"
  st_timeDepositHoldings :: "(cell \<times> holding_state) list"
  st_totalRealizedGain :: rat
  st_lastValidEquityValue :: rat
  st_lastValidEgx30Value :: rat
  st_lastValidUnrealizedGain :: rat
  st_lastValidTotalValue :: rat
  st_dataPointsWithQuotes :: nat

text \<open>The accumulators of the two valuation loops of one date.\<close>

record valuation =
  v_equityValue :: rat
  v_unrealizedGain :: rat
  v_timeDepositUnrealizedGain :: rat
  v_hasAllPrices :: bool

definition needsPrice :: "cell \<Rightarrow> bool" where
  \<comment> \<open>\<^verbatim>\<open>t.Symbol && !["Deposit", "DEPOSIT", "Cash", "CASH", "Expenses", "EXPENSES", ""].includes(t.Symbol)\<close>\<close>
  "needsPrice symbol \<longleftrightarrow>
     truthy symbol \<and>
     symbol \<notin> set (map Text [''Deposit'', ''DEPOSIT'', ''Cash'', ''CASH'', ''Expenses'',
                               ''EXPENSES'', []])"

definition egx30MapOf :: "quote list \<Rightarrow> (string \<times> rat) list" where
  "egx30MapOf quotes =
     foldl (\<lambda>m q. if q_Symbol q = Text ''EGX30'' \<and> q_Date q \<noteq> [] \<and> q_Close q > 0
                   then AList.update (q_Date q) (q_Close q) m else m)
       [] quotes"

definition quotesByDateAndSymbolOf :: "quote list \<Rightarrow> (string \<times> (cell \<times> rat) list) list" where
  "quotesByDateAndSymbolOf quotes =
     foldl (\<lambda>m q. if q_Date q \<noteq> [] \<and> truthy (q_Symbol q)
                   then AList.update (q_Date q)
                          (AList.update (q_Symbol q) (q_Close q)
                             (case map_of m (q_Date q) of None \<Rightarrow> [] | Some dm \<Rightarrow> dm))
                          m
                   else m)
       [] quotes"

definition applyTransaction :: "replay_state \<Rightarrow> transaction \<Rightarrow> replay_state" where
  \<comment> \<open>the body of \<^verbatim>\<open>dateTransactions.forEach\<close>\<close>
  "applyTransaction st transaction =
     (let realizedGainChange = numberOr0 (t_Realized3 transaction);
          st1 = st\<lparr>st_cashBalance := st_cashBalance st + numberOr0 (t_CashImpact transaction),
                   st_totalRealizedGain := st_totalRealizedGain st + realizedGainChange\<rparr>
      in if needsPrice (t_Symbol transaction) then
           (let symbol = t_Symbol transaction;
                qtyChange = numberOr0 (t_QtyChange transaction);
                costChange = numberOr0 (t_CostChange transaction);
                debitChange = numberOr0 (t_Db transaction);
                isTimeDeposit = (t_StatusTr transaction = ''Time Deposit'');
                holdingsMap = (if isTimeDeposit then st_timeDepositHoldings st1 else st_holdings st1);
                currentHolding =
                  (case map_of holdingsMap symbol of
                     Some h \<Rightarrow> h
                   | None \<Rightarrow> \<lparr>hs_quantity = 0, hs_costChangeSum = 0,
                              hs_cumulativeRealizedReturn = 0, hs_totalDebit = 0,
                              hs_lastKnownPrice = 0\<rparr>);
                updated = currentHolding
                  \<lparr>hs_quantity := hs_quantity currentHolding + qtyChange,
                   hs_costChangeSum := hs_costChangeSum currentHolding + costChange,
                   hs_cumulativeRealizedReturn :=
                     hs_cumulativeRealizedReturn currentHolding + realizedGainChange,
                   hs_totalDebit := hs_totalDebit currentHolding + debitChange\<rparr>;
                holdingsMap' =
                  (if \<bar>hs_quantity updated\<bar> < 1 / 10000 then AList.delete symbol holdingsMap
                   else AList.update symbol updated holdingsMap)
            in if isTimeDeposit then st1\<lparr>st_timeDepositHoldings := holdingsMap'\<rparr>
               else st1\<lparr>st_holdings := holdingsMap'\<rparr>)
         else st1)"

text \<open>
  The price of one holding on one date, with the holding after the update of its
  \<^verbatim>\<open>lastKnownPrice\<close> and a flag that a price other than the date's own was used. The
  source writes this chain twice, for the regular and for the time-deposit holdings.
\<close>

definition resolvePrice ::
  "(cell \<times> rat) list option \<Rightarrow> (cell \<times> quote) list \<Rightarrow> cell \<Rightarrow> holding_state \<Rightarrow>
   rat \<times> holding_state \<times> bool" where
  "resolvePrice datePrices latestQuotes symbol holding =
     (let todaysPrice = (case datePrices of None \<Rightarrow> None | Some dp \<Rightarrow> map_of dp symbol)
      in if (case todaysPrice of None \<Rightarrow> False | Some p \<Rightarrow> p > 0) then
           (case todaysPrice of
              None \<Rightarrow> (0, holding, False)
            | Some p \<Rightarrow> (p, holding\<lparr>hs_lastKnownPrice := p\<rparr>, False))
         else if hs_lastKnownPrice holding > 0 then (hs_lastKnownPrice holding, holding, True)
         else (case map_of latestQuotes symbol of
                 Some q \<Rightarrow> (q_Close q, holding\<lparr>hs_lastKnownPrice := q_Close q\<rparr>, True)
               | None \<Rightarrow> (0, holding, False)))"

fun valueHoldings ::
  "(cell \<times> rat) list option \<Rightarrow> (cell \<times> quote) list \<Rightarrow> (cell \<times> holding_state) list \<Rightarrow>
   valuation \<Rightarrow> (cell \<times> holding_state) list \<times> valuation" where
  \<comment> \<open>\<^verbatim>\<open>holdings.forEach((holding, symbol) => ...)\<close>\<close>
  "valueHoldings datePrices latestQuotes [] v = ([], v)"
| "valueHoldings datePrices latestQuotes ((symbol, holding) # rest) v =
     (let (price, holding', fallback) = resolvePrice datePrices latestQuotes symbol holding;
          v1 = (if fallback then v\<lparr>v_hasAllPrices := False\<rparr> else v);
          v2 = (if price > 0 then
                  (let value = hs_quantity holding' * price;
                       openCost = hs_costChangeSum holding' + hs_cumulativeRealizedReturn holding'
                   in v1\<lparr>v_equityValue := v_equityValue v1 + value,
                          v_unrealizedGain := v_unrealizedGain v1 + (value - openCost)\<rparr>)
                else v1\<lparr>v_hasAllPrices := False\<rparr>);
          (rest', v3) = valueHoldings datePrices latestQuotes rest v2
      in ((symbol, holding') # rest', v3))"

fun valueTimeDepositHoldings ::
  "(cell \<times> rat) list option \<Rightarrow> (cell \<times> quote) list \<Rightarrow> (cell \<times> holding_state) list \<Rightarrow>
   valuation \<Rightarrow> (cell \<times> holding_state) list \<times> valuation" where
  \<comment> \<open>\<^verbatim>\<open>timeDepositHoldings.forEach((holding, symbol) => ...)\<close>\<close>
  "valueTimeDepositHoldings datePrices latestQuotes [] v = ([], v)"
| "valueTimeDepositHoldings datePrices latestQuotes ((symbol, holding) # rest) v =
     (let (price, holding', fallback) = resolvePrice datePrices latestQuotes symbol holding;
          v1 = (if price > 0 then
                  (let value = hs_quantity holding' * price;
                       openCost = hs_costChangeSum holding' + hs_cumulativeRealizedReturn holding'
                   in v\<lparr>v_equityValue := v_equityValue v + value,
                         v_timeDepositUnrealizedGain :=
                           v_timeDepositUnrealizedGain v + (value - openCost)\<rparr>)
                else v);
          (rest', v2) = valueTimeDepositHoldings datePrices latestQuotes rest v1
      in ((symbol, holding') # rest', v2))"

definition valueDate ::
  "transaction list \<Rightarrow> (string \<times> (cell \<times> rat) list) list \<Rightarrow> (cell \<times> quote) list \<Rightarrow>
   replay_state \<Rightarrow> string \<Rightarrow> replay_state \<times> valuation" where
  \<comment> \<open>the first part of the body of \<^verbatim>\<open>sortedDates.forEach\<close>: the transactions of the date
      are applied and the holdings valued\<close>
  "valueDate accountTransactions quotesByDateAndSymbol latestQuotes st date =
     (let dateTransactions = filter (\<lambda>t. t_Date t = date) accountTransactions;
          st1 = foldl applyTransaction st dateTransactions;
          datePrices = map_of quotesByDateAndSymbol date;
          v0 = \<lparr>v_equityValue = 0, v_unrealizedGain = 0, v_timeDepositUnrealizedGain = 0,
                 v_hasAllPrices = True\<rparr>;
          (holdings', v1) = valueHoldings datePrices latestQuotes (st_holdings st1) v0;
          (timeDepositHoldings', v2) =
            valueTimeDepositHoldings datePrices latestQuotes (st_timeDepositHoldings st1) v1
      in (st1\<lparr>st_holdings := holdings', st_timeDepositHoldings := timeDepositHoldings'\<rparr>, v2))"

definition emitPoint ::
  "(string \<times> (cell \<times> rat) list) list \<Rightarrow> (string \<times> rat) list \<Rightarrow> string \<Rightarrow>
   replay_state \<Rightarrow> valuation \<Rightarrow> string \<Rightarrow> replay_state \<times> ts_point" where
  \<comment> \<open>the second part, from the comment "If we don't have all prices or equity value is
      zero, use the last valid values" on: the carry-forward and the point pushed.
      \<open>p_egx30\<close> is \<^verbatim>\<open>hasValidEGX30 ? egx30Value : lastValidEgx30Value\<close>, which is the
      value of \<^verbatim>\<open>lastValidEgx30Value\<close> after its update\<close>
  "emitPoint quotesByDateAndSymbol egx30Map selectedAccount st1 v2 date =
     (let cashBalance = st_cashBalance st1;
          datePrices = map_of quotesByDateAndSymbol date;
          carry = ((\<not> v_hasAllPrices v2 \<or> v_equityValue v2 = 0) \<and> st_lastValidEquityValue st1 > 0);
          equityValue = (if carry then st_lastValidEquityValue st1 else v_equityValue v2);
          unrealizedGain = (if carry then st_lastValidUnrealizedGain st1 else v_unrealizedGain v2);
          lastValidEquityValue =
            (if \<not> carry \<and> equityValue > 0 then equityValue else st_lastValidEquityValue st1);
          lastValidUnrealizedGain1 =
            (if \<not> carry \<and> equityValue > 0 then unrealizedGain else st_lastValidUnrealizedGain st1);
          egx30Value = map_of egx30Map date;
          lastValidEgx30Value =
            (case egx30Value of
               None \<Rightarrow> st_lastValidEgx30Value st1
             | Some e \<Rightarrow> if e > 0 then e else st_lastValidEgx30Value st1);
          totalUnrealizedGain = unrealizedGain + v_timeDepositUnrealizedGain v2;
          lastValidUnrealizedGain =
            (if totalUnrealizedGain \<noteq> 0 then totalUnrealizedGain else lastValidUnrealizedGain1);
          hasQuotes = (case datePrices of None \<Rightarrow> False | Some dp \<Rightarrow> length dp > 0);
          dataPointsWithQuotes =
            (if hasQuotes then st_dataPointsWithQuotes st1 + 1 else st_dataPointsWithQuotes st1);
          totalValue = equityValue + cashBalance;
          st2 = st1\<lparr>st_lastValidEquityValue := lastValidEquityValue,
                    st_lastValidEgx30Value := lastValidEgx30Value,
                    st_lastValidUnrealizedGain := lastValidUnrealizedGain,
                    st_dataPointsWithQuotes := dataPointsWithQuotes\<rparr>
      in if totalValue = 0 \<and> st_lastValidTotalValue st1 > 0 then
           (st2,
            \<lparr>p_date = date,
             p_cashValue = cashBalance,
             p_equityValue = lastValidEquityValue,
             p_totalValue = st_lastValidTotalValue st1,
             p_realizedGain = st_totalRealizedGain st1,
             p_unrealizedGain = lastValidUnrealizedGain,
             p_egx30 = lastValidEgx30Value,
             p_hasQuotes = hasQuotes,
             p_account = selectedAccount,
             p_accountValues = []\<rparr>)
         else
           (st2\<lparr>st_lastValidTotalValue := totalValue\<rparr>,
            \<lparr>p_date = date,
             p_cashValue = cashBalance,
             p_equityValue = equityValue,
             p_totalValue = totalValue,
             p_realizedGain = st_totalRealizedGain st1,
             p_unrealizedGain = totalUnrealizedGain,
             p_egx30 = lastValidEgx30Value,
             p_hasQuotes = hasQuotes,
             p_account = selectedAccount,
             p_accountValues = []\<rparr>))"

definition stepDate ::
  "transaction list \<Rightarrow> (string \<times> (cell \<times> rat) list) list \<Rightarrow> (string \<times> rat) list \<Rightarrow>
   (cell \<times> quote) list \<Rightarrow> string \<Rightarrow> replay_state \<Rightarrow> string \<Rightarrow> replay_state \<times> ts_point" where
  \<comment> \<open>the body of \<^verbatim>\<open>sortedDates.forEach\<close>: the state after the date and the point pushed\<close>
  "stepDate accountTransactions quotesByDateAndSymbol egx30Map latestQuotes selectedAccount st date =
     (let (st1, v2) = valueDate accountTransactions quotesByDateAndSymbol latestQuotes st date
      in emitPoint quotesByDateAndSymbol egx30Map selectedAccount st1 v2 date)"

fun replayDates ::
  "(replay_state \<Rightarrow> string \<Rightarrow> replay_state \<times> ts_point) \<Rightarrow> replay_state \<Rightarrow> string list \<Rightarrow>
   ts_point list" where
  \<comment> \<open>\<^verbatim>\<open>sortedDates.forEach\<close>, collecting \<^verbatim>\<open>timeSeriesData\<close>\<close>
  "replayDates step st [] = []"
| "replayDates step st (date # dates) =
     (let (st', point) = step st date in point # replayDates step st' dates)"

definition initialReplayState :: replay_state where
  "initialReplayState =
     \<lparr>st_cashBalance = 0, st_holdings = [], st_timeDepositHoldings = [],
      st_totalRealizedGain = 0, st_lastValidEquityValue = 0, st_lastValidEgx30Value = 0,
      st_lastValidUnrealizedGain = 0, st_lastValidTotalValue = 0, st_dataPointsWithQuotes = 0\<rparr>"

definition sortedDatesOf :: "transaction list \<Rightarrow> quote list \<Rightarrow> string list" where
  \<comment> \<open>the union of the transaction dates and the quote dates, \<^verbatim>\<open>Array.from(allDates).sort()\<close>\<close>
  "sortedDatesOf accountTransactions quotes =
     (let transactionDates = filter (\<lambda>d. d \<noteq> []) (map t_Date accountTransactions);
          uniqueQuoteDates = filter (\<lambda>d. d \<noteq> []) (map q_Date quotes)
      in sort (remdups (transactionDates @ uniqueQuoteDates)))"

definition processTimeSeriesData ::
  "transaction list \<Rightarrow> quote list \<Rightarrow> string list \<Rightarrow> string \<Rightarrow> (cell \<times> quote) list \<Rightarrow>
   ts_point list" where
  \<comment> \<open>\<open>quoteDates\<close> is a parameter that the source never reads\<close>
  "processTimeSeriesData transactions quotes quoteDates selectedAccount latestQuotes =
     (let accountTransactions =
            (if selectedAccount = ''all'' then transactions
             else filter (\<lambda>t. t_Account t = Text selectedAccount) transactions);
          egx30Map = egx30MapOf quotes;
          quotesByDateAndSymbol = quotesByDateAndSymbolOf quotes;
          sortedDates = sortedDatesOf accountTransactions quotes
      in replayDates
           (stepDate accountTransactions quotesByDateAndSymbol egx30Map latestQuotes selectedAccount)
           initialReplayState sortedDates)"

section \<open>Account rollup: \<^verbatim>\<open>mergeTimeSeriesData\<close>\<close>

definition mergeEntry :: "ts_point \<Rightarrow> ts_point \<Rightarrow> ts_point" where
  \<comment> \<open>the update of \<^verbatim>\<open>mergedEntry\<close> by the entry of one series; \<^verbatim>\<open>entry.cashValue || 0\<close>
      is \<open>p_cashValue entry\<close>, a number, and so for the other four values\<close>
  "mergeEntry mergedEntry entry =
     mergedEntry
       \<lparr>p_cashValue := p_cashValue mergedEntry + p_cashValue entry,
        p_equityValue := p_equityValue mergedEntry + p_equityValue entry,
        p_totalValue := p_totalValue mergedEntry + p_totalValue entry,
        p_realizedGain := p_realizedGain mergedEntry + p_realizedGain entry,
        p_unrealizedGain := p_unrealizedGain mergedEntry + p_unrealizedGain entry,
        p_egx30 := (if p_egx30 entry \<noteq> 0 then p_egx30 entry else p_egx30 mergedEntry),
        p_hasQuotes := (p_hasQuotes mergedEntry \<or> p_hasQuotes entry),
        p_accountValues :=
          (if p_account entry \<noteq> []
           then AList.update (p_account entry) (p_totalValue entry) (p_accountValues mergedEntry)
           else p_accountValues mergedEntry)\<rparr>"

definition mergeDate :: "ts_point list list \<Rightarrow> string \<Rightarrow> ts_point" where
  "mergeDate timeSeriesDataArray date =
     foldl (\<lambda>mergedEntry series.
              case find (\<lambda>e. p_date e = date) series of
                None \<Rightarrow> mergedEntry
              | Some entry \<Rightarrow> mergeEntry mergedEntry entry)
       \<lparr>p_date = date, p_cashValue = 0, p_equityValue = 0, p_totalValue = 0,
        p_realizedGain = 0, p_unrealizedGain = 0, p_egx30 = 0, p_hasQuotes = False,
        p_account = [], p_accountValues = []\<rparr>
       timeSeriesDataArray"

definition mergeTimeSeriesData :: "ts_point list list \<Rightarrow> ts_point list" where
  "mergeTimeSeriesData timeSeriesDataArray =
     (if timeSeriesDataArray = [] then []
      else (let allDates = remdups (concat (map (map p_date) timeSeriesDataArray));
                sortedDates = sort allDates
            in map (mergeDate timeSeriesDataArray) sortedDates))"

section \<open>The pipeline: \<^verbatim>\<open>processPortfolioData\<close>\<close>

text \<open>
  What the pipeline takes from its runtime: the CSV parser (\<^verbatim>\<open>parseCSV\<close>, a wrapper
  of the Papa Parse library), the \<^verbatim>\<open>Date\<close> parser, which reads a date without a time
  zone in the time zone of the machine, \<^verbatim>\<open>toISOString().split("T")[0]\<close> on a time
  value, the stack trace that the runtime attaches to the \<^verbatim>\<open>Error\<close> of the source
  (empty when there is none), and the \<^verbatim>\<open>TypeError\<close> that it throws when \<^verbatim>\<open>trim\<close> is
  called on a number. Output to \<^verbatim>\<open>console\<close> is not modelled. The function is
  \<^verbatim>\<open>async\<close> and awaits nothing but its own per-account computations; the model gives
  the value of the promise it returns.

  The \<^verbatim>\<open>try\<close> block throws at two places: the \<^verbatim>\<open>throw\<close> for a missing text, and
  \<^verbatim>\<open>t.Account?.trim()\<close>, which throws a \<^verbatim>\<open>TypeError\<close> for a row whose \<^verbatim>\<open>Account\<close> cell is a
  number. \<^verbatim>\<open>parseCSV\<close>, \<^verbatim>\<open>standardizeDate\<close>, \<^verbatim>\<open>processHoldings\<close> and
  \<^verbatim>\<open>processTimeSeriesData\<close> have \<^verbatim>\<open>try\<close> blocks of their own, and apply no method to a
  \<^verbatim>\<open>Symbol\<close> or \<^verbatim>\<open>Account\<close> cell.
\<close>

record js_error =
  e_message :: string
  e_stack :: string

record runtime =
  rt_parseTransactions :: "string \<Rightarrow> transaction list"
  rt_parseSymbols :: "string \<Rightarrow> symbol_info list"
  rt_parseQuotes :: "string \<Rightarrow> quote list"
  rt_getTime :: "string \<Rightarrow> int option"
  rt_toISODate :: "int \<Rightarrow> string"
  rt_stack :: string
  rt_trimError :: js_error

definition padStart2 :: "string \<Rightarrow> string" where
  \<comment> \<open>\<^verbatim>\<open>s.padStart(2, "0")\<close>\<close>
  "padStart2 s = replicate (2 - length s) CHR ''0'' @ s"

definition standardizeDate :: "runtime \<Rightarrow> string \<Rightarrow> string" where
  "standardizeDate rt dateStr =
     (case rt_getTime rt dateStr of
        Some time \<Rightarrow> rt_toISODate rt time
      | None \<Rightarrow>
          (case splitWhere (\<lambda>c. c = CHR ''/'' \<or> c = CHR ''-'') dateStr of
             [p0, p1, p2] \<Rightarrow>
               (case rt_getTime rt (p2 @ ''-'' @ padStart2 p0 @ ''-'' @ padStart2 p1) of
                  Some time \<Rightarrow> rt_toISODate rt time
                | None \<Rightarrow>
                    (case rt_getTime rt (p2 @ ''-'' @ padStart2 p1 @ ''-'' @ padStart2 p0) of
                       Some time \<Rightarrow> rt_toISODate rt time
                     | None \<Rightarrow> dateStr))
           | _ \<Rightarrow> dateStr))"

definition isSpace :: "char \<Rightarrow> bool" where
  "isSpace c \<longleftrightarrow> c \<in> set [CHR '' '', CHR 0x09, CHR 0x0A, CHR 0x0B, CHR 0x0C, CHR 0x0D]"

definition trim :: "string \<Rightarrow> string" where
  \<comment> \<open>\<^verbatim>\<open>s.trim()\<close> on the ASCII white space\<close>
  "trim s = rev (dropWhile isSpace (rev (dropWhile isSpace s)))"

fun showNat :: "nat \<Rightarrow> string" where
  \<comment> \<open>a natural number in a template literal\<close>
  "showNat n =
     (if n < 10 then [''0123456789'' ! n]
      else showNat (n div 10) @ [''0123456789'' ! (n mod 10)])"

fun joinWith :: "string \<Rightarrow> string list \<Rightarrow> string" where
  \<comment> \<open>\<^verbatim>\<open>xs.join(sep)\<close>\<close>
  "joinWith sep [] = []"
| "joinWith sep [x] = x"
| "joinWith sep (x # y # ys) = x @ sep @ joinWith sep (y # ys)"

definition dateRange :: "string list \<Rightarrow> string" where
  \<comment> \<open>\<^verbatim>\<open>`${ds[0]} to ${ds[ds.length - 1]}`\<close> for \<^verbatim>\<open>ds = dates.filter(Boolean).sort()\<close>\<close>
  "dateRange dates =
     (let ds = sort (filter (\<lambda>d. d \<noteq> []) dates)
      in (case ds of [] \<Rightarrow> ''undefined'' | d # _ \<Rightarrow> d) @ '' to '' @
         (if ds = [] then ''undefined'' else last ds))"

definition isClosedStatus :: "string \<Rightarrow> bool" where
  "isClosedStatus status \<longleftrightarrow>
     status = ''YTD Clear'' \<or> status = ''PYD Clear'' \<or> status = ''Cleared-RE'' \<or>
     status = ''Cleared'' \<or> status = ''Clered -RE'' \<or> status = ''Time Deposit''"

definition emptySummaryMetrics :: summary_metrics where
  "emptySummaryMetrics =
     \<lparr>m_totalValue = 0, m_cashBalance = 0, m_equityValue = 0, m_realizedGain = 0,
      m_unrealizedGain = 0\<rparr>"

definition emptyPortfolioData :: portfolio_data where
  \<comment> \<open>the object that the \<^verbatim>\<open>catch\<close> block returns\<close>
  "emptyPortfolioData =
     \<lparr>pd_accounts = [], pd_currentHoldings = [], pd_closedPositions = [],
      pd_timeSeriesData = [], pd_transactions = [], pd_summaryMetrics = emptySummaryMetrics,
      pd_quotes = None, pd_latestQuotes = None\<rparr>"

definition processAccount ::
  "(string \<Rightarrow> int option) \<Rightarrow> (cell \<times> symbol_info) list \<Rightarrow> (cell \<times> quote) list \<Rightarrow>
   quote list \<Rightarrow> string list \<Rightarrow> (string \<times> transaction list) list \<Rightarrow> string \<Rightarrow> account_data" where
  \<comment> \<open>the function mapped over \<^verbatim>\<open>uniqueAccounts\<close>\<close>
  "processAccount getTime symbolMap latestQuotes quotes quoteDates accountTransactionsMap account =
     (let accountTransactions =
            (case map_of accountTransactionsMap account of None \<Rightarrow> [] | Some ts \<Rightarrow> ts);
          open = filter (\<lambda>t. t_StatusTr t = ''Open Items'') accountTransactions;
          closed = filter (\<lambda>t. t_StatusTr t \<noteq> ''Open Items'' \<and> isClosedStatus (t_StatusTr t))
                     accountTransactions;
          currentHoldings =
            processHoldings getTime open symbolMap latestQuotes (Some ''Open Items'') False;
          closedPositions = processHoldings getTime closed symbolMap latestQuotes None True;
          timeDepositPositions =
            groupBy (\<lambda>t. cellString (t_Symbol t) @ ''-'' @ cellString (t_Account t))
              (filter (\<lambda>t. t_StatusTr t = ''Time Deposit'') accountTransactions);
          timeDepositHoldings =
            processHoldings getTime (concat (map snd timeDepositPositions)) symbolMap latestQuotes
              (Some ''Time Deposit'') False;
          timeSeriesData =
            processTimeSeriesData accountTransactions quotes quoteDates account latestQuotes;
          cashBalance = sumField t_CashImpact accountTransactions;
          equityValue = foldl (\<lambda>sum h. sum + h_Value h) 0 currentHoldings;
          unrealizedGain =
            foldl (\<lambda>sum h. sum + h_UnrealizedGain h) 0 currentHoldings +
            foldl (\<lambda>sum h. sum + h_UnrealizedGain h) 0 timeDepositHoldings;
          realizedGain = foldl (\<lambda>sum h. sum + h_RealizedGain h) 0 closedPositions
      in \<lparr>a_name = account,
          a_currentHoldings = currentHoldings,
          a_closedPositions = closedPositions,
          a_timeSeriesData = timeSeriesData,
          a_summaryMetrics =
            \<lparr>m_totalValue = equityValue + cashBalance,
             m_cashBalance = cashBalance,
             m_equityValue = equityValue,
             m_realizedGain = realizedGain,
             m_unrealizedGain = unrealizedGain\<rparr>\<rparr>)"

definition standardizeTransactions :: "runtime \<Rightarrow> transaction list \<Rightarrow> transaction list" where
  \<comment> \<open>\<^verbatim>\<open>transactions.forEach((t) => { if (t.Date) t.Date = standardizeDate(t.Date) })\<close>\<close>
  "standardizeTransactions rt transactions =
     map (\<lambda>t. if t_Date t \<noteq> [] then t\<lparr>t_Date := standardizeDate rt (t_Date t)\<rparr> else t)
       transactions"

definition standardizeQuotes :: "runtime \<Rightarrow> quote list \<Rightarrow> quote list" where
  \<comment> \<open>\<^verbatim>\<open>quotes.forEach((q) => { if (q.Date) q.Date = standardizeDate(q.Date) })\<close>\<close>
  "standardizeQuotes rt quotes =
     map (\<lambda>q. if q_Date q \<noteq> [] then q\<lparr>q_Date := standardizeDate rt (q_Date q)\<rparr> else q)
       quotes"

definition trimThrows :: "transaction \<Rightarrow> bool" where
  \<comment> \<open>\<^verbatim>\<open>t.Account?.trim()\<close> throws: a number has no method \<^verbatim>\<open>trim\<close>\<close>
  "trimThrows t \<longleftrightarrow> (case t_Account t of Number n \<Rightarrow> True | _ \<Rightarrow> False)"

definition trimmedAccount :: "transaction \<Rightarrow> string" where
  \<comment> \<open>\<^verbatim>\<open>t.Account?.trim()\<close> when it does not throw; the empty string also stands for the
      \<^verbatim>\<open>undefined\<close> of a null or missing cell (both are falsy)\<close>
  "trimmedAccount t = (case t_Account t of Text s \<Rightarrow> trim s | _ \<Rightarrow> [])"

definition accountTransactionsMapOf :: "transaction list \<Rightarrow> (string \<times> transaction list) list" where
  \<comment> \<open>the transactions of each account, under the trimmed account name, when no
      \<^verbatim>\<open>trim\<close> throws\<close>
  "accountTransactionsMapOf transactions =
     groupBy trimmedAccount
       (filter (\<lambda>t. trimmedAccount t \<noteq> [] \<and> trimmedAccount t \<noteq> ''all'' \<and>
                    trimmedAccount t \<noteq> ''All Accounts'')
          transactions)"

definition parsingMessages :: "transaction list \<Rightarrow> quote list \<Rightarrow> string list" where
  \<comment> \<open>what the \<^verbatim>\<open>try\<close> block gives to \<^verbatim>\<open>logFunction\<close> before it groups the
      transactions by account\<close>
  "parsingMessages transactions quotes =
     [''Parsing transactions data...'', ''Parsing symbols data...'',
      ''Parsing quotes data...''] @
     (if length transactions > 0
      then [''Transaction date range: '' @ dateRange (map t_Date transactions)] else []) @
     (if length quotes > 0
      then [''Quote date range: '' @ dateRange (map q_Date quotes)] else [])"

definition progressMessages :: "transaction list \<Rightarrow> quote list \<Rightarrow> string list \<Rightarrow> string list" where
  \<comment> \<open>what the \<^verbatim>\<open>try\<close> block gives to \<^verbatim>\<open>logFunction\<close> when nothing is thrown\<close>
  "progressMessages transactions quotes uniqueAccounts =
     parsingMessages transactions quotes @
     [''Found '' @ showNat (length uniqueAccounts) @ '' unique accounts: '' @
      joinWith '', '' uniqueAccounts]"

definition selectAccountView ::
  "string \<Rightarrow> account_data list \<Rightarrow>
   holding list \<times> holding list \<times> ts_point list \<times> rat \<times> rat \<times> rat \<times> rat" where
  \<comment> \<open>the block \<^verbatim>\<open>if (selectedAccount === "all") { ... } else { ... }\<close>: the values of
      \<^verbatim>\<open>allCurrentHoldings\<close>, \<^verbatim>\<open>allClosedPositions\<close>, \<^verbatim>\<open>allTimeSeriesData\<close>,
      \<^verbatim>\<open>totalCashBalance\<close>, \<^verbatim>\<open>totalEquityValue\<close>, \<^verbatim>\<open>totalRealizedGain\<close> and
      \<^verbatim>\<open>totalUnrealizedGain\<close> after it\<close>
  "selectAccountView selectedAccount accountsData =
     (if selectedAccount = ''all'' then
        (concat (map a_currentHoldings accountsData),
         concat (map a_closedPositions accountsData),
         mergeTimeSeriesData (map a_timeSeriesData accountsData),
         foldl (\<lambda>sum acc. sum + m_cashBalance (a_summaryMetrics acc)) 0 accountsData,
         foldl (\<lambda>sum acc. sum + m_equityValue (a_summaryMetrics acc)) 0 accountsData,
         foldl (\<lambda>sum acc. sum + m_realizedGain (a_summaryMetrics acc)) 0 accountsData,
         foldl (\<lambda>sum acc. sum + m_unrealizedGain (a_summaryMetrics acc)) 0 accountsData)
      else
        (case find (\<lambda>acc. a_name acc = selectedAccount) accountsData of
           Some selectedAccountData \<Rightarrow>
             (a_currentHoldings selectedAccountData,
              a_closedPositions selectedAccountData,
              a_timeSeriesData selectedAccountData,
              m_cashBalance (a_summaryMetrics selectedAccountData),
              m_equityValue (a_summaryMetrics selectedAccountData),
              m_realizedGain (a_summaryMetrics selectedAccountData),
              m_unrealizedGain (a_summaryMetrics selectedAccountData))
         | None \<Rightarrow> ([], [], [], 0, 0, 0, 0)))"

definition processPortfolioDataTry ::
  "runtime \<Rightarrow> string \<Rightarrow> string \<Rightarrow> string \<Rightarrow> string \<Rightarrow> string list \<times> (js_error + portfolio_data)" where
  \<comment> \<open>the \<^verbatim>\<open>try\<close> block: the messages given to \<^verbatim>\<open>logFunction\<close>, in order, and either
      the error thrown or the value returned. The loop that groups the transactions by
      account throws at the first row whose \<^verbatim>\<open>Account\<close> is a number; it has logged
      nothing by then, and what it has built is lost\<close>
  "processPortfolioDataTry rt transactionsText symbolsText quotesText selectedAccount =
     (if transactionsText = [] \<or> symbolsText = [] \<or> quotesText = [] then
        ([''Error: Missing required CSV data''],
         Inl \<lparr>e_message = ''Missing required CSV data'', e_stack = rt_stack rt\<rparr>)
      else
        (let transactions = standardizeTransactions rt (rt_parseTransactions rt transactionsText);
             symbols = rt_parseSymbols rt symbolsText;
             quotes = standardizeQuotes rt (rt_parseQuotes rt quotesText);
             symbolMap = symbolMapOf symbols;
             latestQuotes = latestQuotesOf (rt_getTime rt) quotes;
             quoteDates = remdups (filter (\<lambda>d. d \<noteq> []) (map q_Date quotes))
         in if list_ex trimThrows transactions then
              (parsingMessages transactions quotes, Inl (rt_trimError rt))
            else
              (let accountTransactionsMap = accountTransactionsMapOf transactions;
                   uniqueAccounts = sort (map fst accountTransactionsMap);
                   accountsData =
                     map (processAccount (rt_getTime rt) symbolMap latestQuotes quotes quoteDates
                            accountTransactionsMap)
                       uniqueAccounts
               in case selectAccountView selectedAccount accountsData of
                    (allCurrentHoldings, allClosedPositions, allTimeSeriesData, totalCashBalance,
                     totalEquityValue, totalRealizedGain, totalUnrealizedGain) \<Rightarrow>
                      (progressMessages transactions quotes uniqueAccounts,
                       Inr \<lparr>pd_accounts = accountsData,
                            pd_currentHoldings = allCurrentHoldings,
                            pd_closedPositions = allClosedPositions,
                            pd_timeSeriesData = allTimeSeriesData,
                            pd_transactions = transactions,
                            pd_summaryMetrics =
                              \<lparr>m_totalValue = totalEquityValue + totalCashBalance,
                               m_cashBalance = totalCashBalance,
                               m_equityValue = totalEquityValue,
                               m_realizedGain = totalRealizedGain,
                               m_unrealizedGain = totalUnrealizedGain\<rparr>,
                            pd_quotes = Some quotes,
                            pd_latestQuotes = Some latestQuotes\<rparr>))))"

definition processPortfolioDataCatch :: "js_error \<Rightarrow> string list \<times> portfolio_data" where
  \<comment> \<open>the \<^verbatim>\<open>catch\<close> block: its messages and the value it returns\<close>
  "processPortfolioDataCatch error =
     ([''Error in processPortfolioData: '' @ e_message error] @
      (if e_stack error \<noteq> [] then [''Stack trace: '' @ e_stack error] else []),
      emptyPortfolioData)"

definition processPortfolioDataRun ::
  "runtime \<Rightarrow> string \<Rightarrow> string \<Rightarrow> string \<Rightarrow> string \<Rightarrow> string list \<times> portfolio_data" where
  \<comment> \<open>\<^verbatim>\<open>try { ... } catch (error) { ... }\<close>\<close>
  "processPortfolioDataRun rt transactionsText symbolsText quotesText selectedAccount =
     (case processPortfolioDataTry rt transactionsText symbolsText quotesText selectedAccount of
        (messages, Inr result) \<Rightarrow> (messages, result)
      | (messages, Inl error) \<Rightarrow>
          (messages @ fst (processPortfolioDataCatch error),
           snd (processPortfolioDataCatch error)))"

definition processPortfolioData ::
  "runtime \<Rightarrow> string \<Rightarrow> string \<Rightarrow> string \<Rightarrow> (string \<Rightarrow> 'l \<Rightarrow> 'l) \<Rightarrow> string \<Rightarrow> 'l \<Rightarrow>
   'l \<times> portfolio_data" where
  \<comment> \<open>\<open>logFunction\<close> acts on a state \<open>'l\<close> of its caller; the result is that state after
      all the calls, with the value returned\<close>
  "processPortfolioData rt transactionsText symbolsText quotesText logFunction selectedAccount l =
     (let run = processPortfolioDataRun rt transactionsText symbolsText quotesText selectedAccount
      in (foldl (\<lambda>l message. logFunction message l) l (fst run), snd run))"

section \<open>Export and import of the raw texts\<close>

record export_file =
  x_transactionsText :: string
  x_symbolsText :: string
  x_quotesText :: string

definition handleExport :: "string \<Rightarrow> string \<Rightarrow> string \<Rightarrow> export_file" where
  \<comment> \<open>the object given to \<^verbatim>\<open>JSON.stringify\<close>; \<^verbatim>\<open>JSON.parse\<close> of the file gives it back\<close>
  "handleExport transactionsText symbolsText quotesText =
     \<lparr>x_transactionsText = transactionsText, x_symbolsText = symbolsText,
      x_quotesText = quotesText\<rparr>"

definition handleImport :: "runtime \<Rightarrow> export_file \<Rightarrow> portfolio_data option" where
  \<comment> \<open>the value given to \<^verbatim>\<open>onDataImport\<close>; \<open>None\<close> for the "Import Failed" return\<close>
  "handleImport rt importedData =
     (if x_transactionsText importedData = [] \<or> x_symbolsText importedData = [] \<or>
         x_quotesText importedData = []
      then None
      else Some (snd (processPortfolioData rt
                        (x_transactionsText importedData) (x_symbolsText importedData)
                        (x_quotesText importedData) (\<lambda>message l. l) ''all'' ())))"

section \<open>Notions used to state the claims\<close>

definition presentOn :: "string \<Rightarrow> ts_point list list \<Rightarrow> ts_point list" where
  \<comment> \<open>the entries that \<^verbatim>\<open>series.find((e) => e.date === date)\<close> finds, one for each
      series that has the date\<close>
  "presentOn date timeSeriesDataArray =
     List.map_filter (find (\<lambda>e. p_date e = date)) timeSeriesDataArray"

text \<open>
  The specification describes price resolution as an ordered list of resolvers, the
  first success winning, with a literal default. These definitions follow its words;
  the theorems compare them with the price blocks of the source.
\<close>

fun resolveFirst :: "rat option list \<Rightarrow> rat \<Rightarrow> rat" where
  "resolveFirst [] fallback = fallback"
| "resolveFirst (None # rest) fallback = resolveFirst rest fallback"
| "resolveFirst (Some price # rest) fallback = price"

definition fromLatestQuote :: "(cell \<times> quote) list option \<Rightarrow> cell \<Rightarrow> rat option" where
  \<comment> \<open>the exact-symbol entry of the latest-quote index, when its close is positive\<close>
  "fromLatestQuote latestQuotes symbol =
     (case latestQuotes of
        None \<Rightarrow> None
      | Some lq \<Rightarrow>
          (case map_of lq symbol of
             None \<Rightarrow> None
           | Some q \<Rightarrow> if q_Close q > 0 then Some (q_Close q) else None))"

definition fromQuotesList ::
  "(string \<Rightarrow> int option) \<Rightarrow> quote list option \<Rightarrow> cell \<Rightarrow> rat option" where
  \<comment> \<open>the exact-symbol quote of maximum date in the quotes list, among positive closes\<close>
  "fromQuotesList getTime quotes symbol =
     (case quotes of
        None \<Rightarrow> None
      | Some qs \<Rightarrow>
          (case latestFirst getTime (filter (\<lambda>q. q_Symbol q = symbol \<and> q_Close q > 0) qs) of
             [] \<Rightarrow> None
           | q # _ \<Rightarrow> Some (q_Close q)))"

definition startsWith :: "cell \<Rightarrow> cell \<Rightarrow> bool" where
  \<comment> \<open>a text that starts with the part of another text before \<open>@\<close>\<close>
  "startsWith quoteSymbol symbol \<longleftrightarrow>
     (case (quoteSymbol, symbol) of
        (Text q, Text s) \<Rightarrow>
          q \<noteq> [] \<and> take (length (takeWhile (\<lambda>c. c \<noteq> CHR ''@'') s)) q
                      = takeWhile (\<lambda>c. c \<noteq> CHR ''@'') s
      | _ \<Rightarrow> False)"

definition fromPrefixMatch ::
  "(string \<Rightarrow> int option) \<Rightarrow> quote list option \<Rightarrow> cell \<Rightarrow> rat option" where
  \<comment> \<open>the quote of maximum date among those whose symbol starts with the symbol's part
      before \<open>@\<close>, among positive closes\<close>
  "fromPrefixMatch getTime quotes symbol =
     (case quotes of
        None \<Rightarrow> None
      | Some qs \<Rightarrow>
          (case latestFirst getTime
                  (filter (\<lambda>q. startsWith (q_Symbol q) symbol \<and> q_Close q > 0) qs) of
             [] \<Rightarrow> None
           | q # _ \<Rightarrow> Some (q_Close q)))"

definition fromNetPrice :: "rat option \<Rightarrow> rat option" where
  \<comment> \<open>the recorded net price of the group's first transaction, when it is a non-zero number\<close>
  "fromNetPrice netPrice =
     (case netPrice of None \<Rightarrow> None | Some p \<Rightarrow> if p = 0 then None else Some p)"







section \<open>Example inputs\<close>

text \<open>
  A \<^verbatim>\<open>Date\<close> parser for three days, the two transactions and the quote of the
  specification's example, and the holding that they give.
\<close>

definition exampleGetTime :: "string \<Rightarrow> int option" where
  "exampleGetTime s =
     (if s = ''2024-01-01'' then Some 19723
      else if s = ''2024-01-02'' then Some 19724
      else if s = ''2024-01-03'' then Some 19725 else None)"

definition exampleTransaction :: "string \<Rightarrow> rat \<Rightarrow> rat \<Rightarrow> rat \<Rightarrow> transaction" where
  "exampleTransaction status qtyChange costChange realized3 =
     \<lparr>t_StatusTr = status, t_Symbol = Text ''X'', t_Account = Text ''A'', t_Date = [],
      t_NetPrice = None, t_CashImpact = None, t_QtyChange = Some qtyChange,
      t_CostChange = Some costChange, t_Realized3 = Some realized3, t_Sh_name_eng = [],
      t_Db = None\<rparr>"

definition exampleTransactions :: "string \<Rightarrow> transaction list" where
  "exampleTransactions status =
     [exampleTransaction status 100 1000 0, exampleTransaction status (-40) (-400) 50]"

definition exampleQuotes :: "quote list" where
  "exampleQuotes = [\<lparr>q_Date = ''2024-01-01'', q_Close = 12, q_Symbol = Text ''X''\<rparr>]"

definition exampleHolding :: holding where
  "exampleHolding =
     \<lparr>h_Symbol = ''X'', h_Account = ''A'', h_Name = ''X'', h_Sector = ''Unknown'',
      h_Status = ''Open Items'', h_Quantity = 60, h_Cost = 650, h_TotalCost = 600,
      h_AvgCost = 65 / 6, h_Price = 12, h_Value = 720, h_UnrealizedGain = 70,
      h_UnrealizedGainPct = 0, h_RealizedGain = 50, h_RealizedGainPct = 0,
      h_TotalReturn = 120, h_TotalReturnPct = 0, h_Db = 0, h_cashBalance = 0\<rparr>"

text \<open>A group that is bought and sold in full.\<close>

definition closedExampleTransactions :: "transaction list" where
  "closedExampleTransactions =
     [exampleTransaction ''Cleared'' 100 1000 0, exampleTransaction ''Cleared'' (-100) (-1000) 50]"

text \<open>Two quotes of one symbol on one date, in input order.\<close>

definition tieQuoteFirst :: quote where
  "tieQuoteFirst = \<lparr>q_Date = ''2024-01-01'', q_Close = 10, q_Symbol = Text ''X''\<rparr>"

definition tieQuoteSecond :: quote where
  "tieQuoteSecond = \<lparr>q_Date = ''2024-01-01'', q_Close = 20, q_Symbol = Text ''X''\<rparr>"

text \<open>The series of two accounts, each with one point of total value 100 on 2024-01-01.\<close>

definition examplePoint :: "string \<Rightarrow> ts_point" where
  "examplePoint account =
     \<lparr>p_date = ''2024-01-01'', p_cashValue = 40, p_equityValue = 60, p_totalValue = 100,
      p_realizedGain = 0, p_unrealizedGain = 0, p_egx30 = 0, p_hasQuotes = False,
      p_account = account, p_accountValues = []\<rparr>"

definition exampleSeries :: "ts_point list list" where
  "exampleSeries = [[examplePoint ''A''], [examplePoint ''B'']]"

definition exampleMerged :: ts_point where
  "exampleMerged =
     \<lparr>p_date = ''2024-01-01'', p_cashValue = 80, p_equityValue = 120, p_totalValue = 200,
      p_realizedGain = 0, p_unrealizedGain = 0, p_egx30 = 0, p_hasQuotes = False,
      p_account = [], p_accountValues = [(''A'', 100), (''B'', 100)]\<rparr>"

text \<open>Cash movements of one account: the symbol "Cash" opens no holding.\<close>

definition cashTransaction :: "string \<Rightarrow> rat \<Rightarrow> transaction" where
  "cashTransaction date amount =
     \<lparr>t_StatusTr = ''Open Items'', t_Symbol = Text ''Cash'', t_Account = Text ''A'', t_Date = date,
      t_NetPrice = None, t_CashImpact = Some amount, t_QtyChange = None,
      t_CostChange = None, t_Realized3 = None, t_Sh_name_eng = [], t_Db = None\<rparr>"

text \<open>
  A runtime for the example: the parser gives the rows of the example and a deposit of
  100 in cash whatever the text, and the stack traces of the errors are fixed strings.
\<close>

definition exampleRows :: "transaction list" where
  "exampleRows = exampleTransactions ''Open Items'' @ [cashTransaction ''2024-01-01'' 100]"

definition exampleRuntime :: runtime where
  "exampleRuntime =
     \<lparr>rt_parseTransactions = (\<lambda>text. exampleRows),
      rt_parseSymbols = (\<lambda>text. []),
      rt_parseQuotes = (\<lambda>text. exampleQuotes),
      rt_getTime = exampleGetTime,
      rt_toISODate =
        (\<lambda>time. if time = 19723 then ''2024-01-01''
                else if time = 19724 then ''2024-01-02'' else ''2024-01-03''),
      rt_stack = ''Error: Missing required CSV data at processPortfolioData'',
      rt_trimError =
        \<lparr>e_message = ''t.Account?.trim is not a function'',
         e_stack = ''TypeError: t.Account?.trim is not a function at processPortfolioData''\<rparr>\<rparr>"

text \<open>Two quotes of one symbol on consecutive days.\<close>

definition twoDayQuotes :: "quote list" where
  "twoDayQuotes =
     [\<lparr>q_Date = ''2024-01-01'', q_Close = 12, q_Symbol = Text ''X''\<rparr>,
      \<lparr>q_Date = ''2024-01-02'', q_Close = 13, q_Symbol = Text ''X''\<rparr>]"

text \<open>Cash movements that overdraw the account, and a full withdrawal.\<close>

definition overdrawnTransactions :: "transaction list" where
  "overdrawnTransactions =
     [cashTransaction ''2024-01-01'' 100, cashTransaction ''2024-01-02'' (-150),
      cashTransaction ''2024-01-03'' 50]"

definition withdrawnTransactions :: "transaction list" where
  "withdrawnTransactions =
     [cashTransaction ''2024-01-01'' 100, cashTransaction ''2024-01-02'' (-100)]"

text \<open>A position that was acquired at no cost: ten units of X with a cost change of 0.\<close>

definition costFreeTransactions :: "transaction list" where
  "costFreeTransactions = [exampleTransaction ''Open Items'' 10 0 0]"





section \<open>Auxiliary facts\<close>

subsection \<open>Sums, sorting, grouping and splitting\<close>

lemma foldl_add_sum_list:
  "foldl (\<lambda>acc x. acc + f x) z xs = z + sum_list (map f xs)" for z :: rat
  by (induction xs arbitrary: z) (simp_all add: add.assoc)

lemma sumField_sum_list: "sumField field ts = sum_list (map (\<lambda>t. numberOr0 (field t)) ts)"
  by (simp add: sumField_def foldl_add_sum_list)

lemma mset_insortCmp: "mset (insortCmp precedes x ys) = add_mset x (mset ys)"
  by (induction ys) simp_all

lemma mset_sortCmp: "mset (sortCmp precedes xs) = mset xs"
  by (induction xs) (simp_all add: sortCmp_def mset_insortCmp)


lemma sum_list_map_sortCmp:
  "sum_list (map f (sortCmp precedes xs)) = sum_list (map f xs)" for f :: "'a \<Rightarrow> rat"
proof -
  have "sum_list (map f (sortCmp precedes xs)) = sum_mset (image_mset f (mset (sortCmp precedes xs)))"
    by (metis mset_map sum_mset_sum_list)
  also have "\<dots> = sum_mset (image_mset f (mset xs))"
    by (simp add: mset_sortCmp)
  also have "\<dots> = sum_list (map f xs)"
    by (metis mset_map sum_mset_sum_list)
  finally show ?thesis .
qed

lemma set_insortCmp: "set (insortCmp precedes x ys) = insert x (set ys)"
  by (metis mset_insortCmp set_mset_add_mset_insert set_mset_mset)

lemma set_sortCmp: "set (sortCmp precedes xs) = set xs"
  by (metis mset_sortCmp set_mset_mset)

lemma sorted_insortCmp:
  fixes key :: "'a \<Rightarrow> int"
  assumes "\<And>a b. a \<in> insert x (set ys) \<Longrightarrow> b \<in> insert x (set ys) \<Longrightarrow>
             precedes a b \<longleftrightarrow> key a < key b"
    and "sorted (map key ys)"
  shows "sorted (map key (insortCmp precedes x ys))"
  using assms
proof (induction ys)
  case Nil
  show ?case by simp
next
  case (Cons y ys)
  have p: "precedes y x \<longleftrightarrow> key y < key x"
    using Cons.prems(1) [of y x] by simp
  show ?case
  proof (cases "key y < key x")
    case True
    have ih_p: "precedes a b \<longleftrightarrow> key a < key b"
      if "a \<in> insert x (set ys)" and "b \<in> insert x (set ys)" for a b
      using that Cons.prems(1) [of a b] by auto
    from Cons.prems(2) have ih_s: "sorted (map key ys)" by simp
    have "sorted (map key (insortCmp precedes x ys))"
      using ih_p ih_s by (rule Cons.IH)
    moreover have "\<forall>z \<in> set (insortCmp precedes x ys). key y \<le> key z"
      using Cons.prems(2) True by (auto simp: set_insortCmp)
    ultimately show ?thesis using True p by simp
  next
    case False
    with Cons.prems(2) p show ?thesis by auto
  qed
qed

lemma sorted_sortCmp:
  fixes key :: "'a \<Rightarrow> int"
  assumes "\<And>a b. a \<in> set xs \<Longrightarrow> b \<in> set xs \<Longrightarrow> precedes a b \<longleftrightarrow> key a < key b"
  shows "sorted (map key (sortCmp precedes xs))"
  using assms
proof (induction xs)
  case Nil
  show ?case by (simp add: sortCmp_def)
next
  case (Cons x xs)
  have s: "sorted (map key (sortCmp precedes xs))"
    using Cons.prems by (intro Cons.IH) auto
  have "sorted (map key (insortCmp precedes x (sortCmp precedes xs)))"
    using Cons.prems s by (intro sorted_insortCmp) (auto simp: set_sortCmp)
  then show ?case by (simp add: sortCmp_def)
qed








lemma splitWhere_first:
  "(case splitWhere sep s of [] \<Rightarrow> [] | b # _ \<Rightarrow> b) = takeWhile (\<lambda>x. \<not> sep x) s"
  by (induction s) (auto split: list.splits)

lemma splitOn_first:
  "(case splitOn c s of [] \<Rightarrow> [] | b # _ \<Rightarrow> b) = takeWhile (\<lambda>x. x \<noteq> c) s"
  by (simp add: splitOn_def splitWhere_first)

lemma find_unique:
  assumes "\<forall>x \<in> set xs. P x \<longrightarrow> x = e" and "e \<in> set xs" and "P e"
  shows "find P xs = Some e"
  using assms
proof (induction xs)
  case Nil
  then show ?case by simp
next
  case (Cons x xs)
  show ?case
  proof (cases "P x")
    case True
    with Cons.prems(1) have "x = e" by (metis list.set_intros(1))
    with True show ?thesis by simp
  next
    case False
    with Cons.prems(3) have "e \<noteq> x" by blast
    with Cons.prems(2) have e: "e \<in> set xs" by (metis set_ConsD)
    from Cons.prems(1) have "\<forall>x \<in> set xs. P x \<longrightarrow> x = e" by (metis list.set_intros(2))
    from Cons.IH [OF this e Cons.prems(3)] False show ?thesis by simp
  qed
qed

subsection \<open>Holdings\<close>





lemma holdingOfGroup_excluded:
  assumes "\<bar>sum_list (map (\<lambda>t. numberOr0 (t_QtyChange t)) g)\<bar> < 1 / 10000"
  shows "holdingOfGroup gt sm lq st False cb (k, g) = None"
  using assms
  by (simp add: holdingOfGroup_def Let_def sumField_sum_list sum_list_map_sortCmp)




lemma holdingOfGroup_price:
  assumes "holdingOfGroup getTime symbolMap lq statusType incl cb (k, g) = Some h"
  shows "h_Price h =
           (case map_of lq (Text (takeWhile (\<lambda>c. c \<noteq> CHR ''-'') k)) of
              Some q \<Rightarrow> q_Close q | None \<Rightarrow> 0)"
  using assms
  by (auto simp: holdingOfGroup_def Let_def splitOn_first split: if_splits)

lemma holdingOfGroup_pct:
  assumes "holdingOfGroup getTime symbolMap lq statusType incl cb kg = Some h"
  shows "h_Db h = 0 \<longrightarrow>
           h_UnrealizedGainPct h = 0 \<and> h_RealizedGainPct h = 0 \<and> h_TotalReturnPct h = 0"
    and "h_Db h \<noteq> 0 \<longrightarrow>
           h_UnrealizedGainPct h = h_UnrealizedGain h / \<bar>h_Db h\<bar> * 100 \<and>
           h_RealizedGainPct h = h_RealizedGain h / \<bar>h_Db h\<bar> * 100 \<and>
           h_TotalReturnPct h = h_TotalReturn h / \<bar>h_Db h\<bar> * 100"
  using assms by (auto simp: holdingOfGroup_def Let_def split: if_splits)

lemma aggregated_single:
  "map (\<lambda>g. (g_Cost g, g_UnrealizedGain g, g_UnrealizedGainPct g)) (aggregatedHoldings [h] ''all'')
     = [(h_Cost h, h_UnrealizedGain h, jsTimes (jsDiv (h_UnrealizedGain h) (h_Cost h)) 100)]"
  by (simp add: aggregatedHoldings_def aggregateStep_def Let_def)

subsection \<open>The latest-quote index and the price chains\<close>

lemma latestQuotesOf_snoc:
  "latestQuotesOf getTime (quotes @ [q]) = latestQuoteStep getTime (latestQuotesOf getTime quotes) q"
  by (simp add: latestQuotesOf_def)

lemma map_of_latestQuoteStep:
  "map_of (latestQuoteStep getTime m q) s =
     (if q_Symbol q = s then
        (case map_of m s of
           None \<Rightarrow> Some q
         | Some existing \<Rightarrow>
             if timeLess getTime (q_Date existing) (q_Date q) then Some q else Some existing)
      else map_of m s)"
  by (auto simp: latestQuoteStep_def update_conv' split: option.splits)

lemma latestQuotesOf_first_max:
  assumes "\<forall>q \<in> set quotes. q_Symbol q = s \<longrightarrow> getTime (q_Date q) = Some (time q)"
  shows "(filter (\<lambda>q. q_Symbol q = s) quotes = [] \<and> map_of (latestQuotesOf getTime quotes) s = None)
       \<or> (\<exists>pre r post.
            filter (\<lambda>q. q_Symbol q = s) quotes = pre @ r # post \<and>
            map_of (latestQuotesOf getTime quotes) s = Some r \<and>
            (\<forall>q \<in> set pre. time q < time r) \<and> (\<forall>q \<in> set post. time q \<le> time r))"
  using assms
proof (induction quotes rule: rev_induct)
  case Nil
  show ?case by (simp add: latestQuotesOf_def)
next
  case (snoc q quotes)
  let ?sq = "filter (\<lambda>q. q_Symbol q = s) quotes"
  let ?m = "latestQuotesOf getTime quotes"
  from snoc.prems have valid: "\<forall>q \<in> set quotes. q_Symbol q = s \<longrightarrow> getTime (q_Date q) = Some (time q)"
    by simp
  note IH = snoc.IH [OF valid]
  show ?case
  proof (cases "q_Symbol q = s")
    case False
    with IH show ?thesis
      by (simp add: latestQuotesOf_snoc map_of_latestQuoteStep)
  next
    case True
    with snoc.prems have tq: "getTime (q_Date q) = Some (time q)" by simp
    from IH show ?thesis
    proof
      assume e: "?sq = [] \<and> map_of ?m s = None"
      have "filter (\<lambda>q. q_Symbol q = s) (quotes @ [q]) = [] @ q # []"
        using e True by simp
      moreover have "map_of (latestQuotesOf getTime (quotes @ [q])) s = Some q"
        using e True by (simp add: latestQuotesOf_snoc map_of_latestQuoteStep)
      ultimately show ?thesis by (metis empty_iff list.set(1))
    next
      assume "\<exists>pre r post. ?sq = pre @ r # post \<and> map_of ?m s = Some r \<and>
                (\<forall>q \<in> set pre. time q < time r) \<and> (\<forall>q \<in> set post. time q \<le> time r)"
      then obtain pre r post where d: "?sq = pre @ r # post" "map_of ?m s = Some r"
          "\<forall>q \<in> set pre. time q < time r" "\<forall>q \<in> set post. time q \<le> time r"
        by blast
      from d(1) have "r \<in> set ?sq" by simp
      then have "r \<in> set quotes" "q_Symbol r = s" by simp_all
      with valid have tr: "getTime (q_Date r) = Some (time r)" by simp
      have less: "timeLess getTime (q_Date r) (q_Date q) \<longleftrightarrow> time r < time q"
        by (simp add: timeLess_def tr tq)
      show ?thesis
      proof (cases "time r < time q")
        case True
        have f: "filter (\<lambda>q. q_Symbol q = s) (quotes @ [q]) = (pre @ r # post) @ q # []"
          using d(1) \<open>q_Symbol q = s\<close> by simp
        have m: "map_of (latestQuotesOf getTime (quotes @ [q])) s = Some q"
          using d(2) \<open>q_Symbol q = s\<close> True
          by (simp add: latestQuotesOf_snoc map_of_latestQuoteStep less)
        have "\<forall>x \<in> set (pre @ r # post). time x < time q"
          using d(3,4) True by auto
        with f m show ?thesis by (metis empty_iff list.set(1))
      next
        case False
        have f: "filter (\<lambda>q. q_Symbol q = s) (quotes @ [q]) = pre @ r # (post @ [q])"
          using d(1) \<open>q_Symbol q = s\<close> by simp
        have m: "map_of (latestQuotesOf getTime (quotes @ [q])) s = Some r"
          using d(2) \<open>q_Symbol q = s\<close> False
          by (simp add: latestQuotesOf_snoc map_of_latestQuoteStep less)
        have "\<forall>x \<in> set (post @ [q]). time x \<le> time r"
          using d(4) False by auto
        with f m d(3) show ?thesis by blast
      qed
    qed
  qed
qed

lemma latestFirst_head:
  assumes "\<forall>q \<in> set qs. getTime (q_Date q) = Some (time q)"
    and "latestFirst getTime qs = r # rest"
  shows "r \<in> set qs" and "\<forall>q \<in> set qs. time q \<le> time r"
proof -
  from assms(2) have s: "set qs = insert r (set rest)"
    by (metis latestFirst_def set_sortCmp list.simps(15))
  then show "r \<in> set qs" by simp
  have "sorted (map (\<lambda>q. - time q) (latestFirst getTime qs))"
    unfolding latestFirst_def
  proof (rule sorted_sortCmp)
    fix a b
    assume "a \<in> set qs" and "b \<in> set qs"
    with assms(1) show "timeLess getTime (q_Date b) (q_Date a) \<longleftrightarrow> - time a < - time b"
      by (simp add: timeLess_def)
  qed
  with assms(2) have "\<forall>q \<in> set rest. - time r \<le> - time q" by simp
  with s show "\<forall>q \<in> set qs. time q \<le> time r" by auto
qed

lemma openDepositsPrice_chain:
  "fst (openDepositsPrice getTime latestQuotes quotes symbol netPrice) =
     resolveFirst [fromLatestQuote latestQuotes symbol, fromQuotesList getTime quotes symbol,
                   fromNetPrice netPrice] 1"
proof -
  have pos: "(\<lambda>q. q_Symbol q = symbol \<and> q_Close q \<noteq> 0 \<and> q_Close q > 0)
           = (\<lambda>q. q_Symbol q = symbol \<and> q_Close q > 0)" by auto
  have hd: "q \<in> set (filter (\<lambda>q. q_Symbol q = symbol \<and> q_Close q > 0) qs) \<Longrightarrow> q_Close q \<noteq> 0"
    for q qs by auto
  have nz: "q_Close q \<noteq> 0"
    if "latestFirst getTime (filter (\<lambda>q. q_Symbol q = symbol \<and> q_Close q > 0) qs) = q # rest"
    for q rest qs
  proof -
    from that have "q \<in> set (filter (\<lambda>q. q_Symbol q = symbol \<and> q_Close q > 0) qs)"
      by (metis latestFirst_def set_sortCmp list.set_intros(1))
    then show ?thesis by auto
  qed
  show ?thesis
    by (auto simp: openDepositsPrice_def fromLatestQuote_def fromQuotesList_def fromNetPrice_def
          numberOr1_def Let_def pos dest: nz split: option.splits list.splits)
qed

lemma fromQuotesList_max:
  assumes "\<forall>q \<in> set qs. getTime (q_Date q) = Some (time q)"
    and "fromQuotesList getTime (Some qs) symbol = Some p"
  shows "\<exists>r \<in> set qs. q_Symbol r = symbol \<and> q_Close r = p \<and> p > 0 \<and>
           (\<forall>q \<in> set qs. q_Symbol q = symbol \<and> q_Close q > 0 \<longrightarrow> time q \<le> time r)"
proof -
  let ?m = "filter (\<lambda>q. q_Symbol q = symbol \<and> q_Close q > 0) qs"
  from assms(2) obtain r rest where l: "latestFirst getTime ?m = r # rest" and p: "p = q_Close r"
    by (auto simp: fromQuotesList_def split: list.splits)
  from assms(1) have v: "\<forall>q \<in> set ?m. getTime (q_Date q) = Some (time q)" by simp
  from latestFirst_head [OF v l] have "r \<in> set ?m" and "\<forall>q \<in> set ?m. time q \<le> time r"
    by simp_all
  with p show ?thesis by auto
qed

subsection \<open>The replay of the time series\<close>

lemma emitPoint_total:
  assumes "emitPoint qbds egx sel st1 v date = (st', point)"
  shows "p_totalValue point = st_lastValidTotalValue st'"
    and "st_lastValidTotalValue st1 > 0 \<Longrightarrow> p_totalValue point \<noteq> 0"
  using assms by (auto simp: emitPoint_def Let_def split: if_splits)

lemma applyTransaction_lastValid:
  "st_lastValidTotalValue (applyTransaction st t) = st_lastValidTotalValue st"
  "st_lastValidEquityValue (applyTransaction st t) = st_lastValidEquityValue st"
  "st_lastValidUnrealizedGain (applyTransaction st t) = st_lastValidUnrealizedGain st"
  by (simp_all add: applyTransaction_def Let_def)

lemma foldl_applyTransaction_lastValid:
  "st_lastValidTotalValue (foldl applyTransaction st ts) = st_lastValidTotalValue st"
  "st_lastValidEquityValue (foldl applyTransaction st ts) = st_lastValidEquityValue st"
  "st_lastValidUnrealizedGain (foldl applyTransaction st ts) = st_lastValidUnrealizedGain st"
  by (induction ts arbitrary: st; simp add: applyTransaction_lastValid)+

lemma valueDate_lastValid:
  assumes "valueDate ats qbds lq st date = (st1, v)"
  shows "st_lastValidTotalValue st1 = st_lastValidTotalValue st"
    and "st_lastValidEquityValue st1 = st_lastValidEquityValue st"
    and "st_lastValidUnrealizedGain st1 = st_lastValidUnrealizedGain st"
  using assms
  by (auto simp: valueDate_def Let_def foldl_applyTransaction_lastValid split: prod.splits)

lemma stepDate_total:
  assumes "stepDate ats qbds egx lq sel st date = (st', point)"
  shows "p_totalValue point = st_lastValidTotalValue st'"
    and "st_lastValidTotalValue st > 0 \<Longrightarrow> p_totalValue point \<noteq> 0"
proof -
  obtain st1 v where vd: "valueDate ats qbds lq st date = (st1, v)" by (cases "valueDate ats qbds lq st date")
  with assms have e: "emitPoint qbds egx sel st1 v date = (st', point)"
    by (simp add: stepDate_def)
  from emitPoint_total(1) [OF e] show "p_totalValue point = st_lastValidTotalValue st'" .
  assume "st_lastValidTotalValue st > 0"
  with valueDate_lastValid(1) [OF vd] have "st_lastValidTotalValue st1 > 0" by simp
  with emitPoint_total(2) [OF e] show "p_totalValue point \<noteq> 0" .
qed

lemma replayDates_no_regress:
  assumes "\<And>st d st' p. step st d = (st', p) \<Longrightarrow>
             p_totalValue p = st_lastValidTotalValue st' \<and>
             (st_lastValidTotalValue st > 0 \<longrightarrow> p_totalValue p \<noteq> 0)"
  shows "(st_lastValidTotalValue st > 0 \<longrightarrow>
            (\<forall>p \<in> set (take 1 (replayDates step st ds)). p_totalValue p \<noteq> 0))
       \<and> (\<forall>i. Suc i < length (replayDates step st ds) \<longrightarrow>
             p_totalValue (replayDates step st ds ! i) > 0 \<longrightarrow>
             p_totalValue (replayDates step st ds ! Suc i) \<noteq> 0)"
proof (induction ds arbitrary: st)
  case Nil
  show ?case by simp
next
  case (Cons d ds)
  obtain st' p where s: "step st d = (st', p)" by (cases "step st d")
  note a = assms [OF s]
  note IH = Cons.IH [of st']
  have r: "replayDates step st (d # ds) = p # replayDates step st' ds"
    by (simp add: s)
  show ?case
  proof (intro conjI impI allI)
    assume "st_lastValidTotalValue st > 0"
    with a show "\<forall>p \<in> set (take 1 (replayDates step st (d # ds))). p_totalValue p \<noteq> 0"
      unfolding r by simp
  next
    fix i
    assume "Suc i < length (replayDates step st (d # ds))"
      and "p_totalValue (replayDates step st (d # ds) ! i) > 0"
    then have i: "Suc i < length (p # replayDates step st' ds)"
      and pos: "p_totalValue ((p # replayDates step st' ds) ! i) > 0"
      unfolding r by simp_all
    have "p_totalValue ((p # replayDates step st' ds) ! Suc i) \<noteq> 0"
    proof (cases i)
      case 0
      with pos a have "st_lastValidTotalValue st' > 0" by simp
      with IH have "\<forall>p \<in> set (take 1 (replayDates step st' ds)). p_totalValue p \<noteq> 0"
        by blast
      moreover from i 0 have "replayDates step st' ds \<noteq> []" by auto
      ultimately have "p_totalValue (replayDates step st' ds ! 0) \<noteq> 0"
        by (cases "replayDates step st' ds") simp_all
      with 0 show ?thesis by simp
    next
      case (Suc j)
      with i pos IH show ?thesis by simp
    qed
    then show "p_totalValue (replayDates step st (d # ds) ! Suc i) \<noteq> 0"
      unfolding r .
  qed
qed

lemma processTimeSeriesData_no_regress:
  "\<forall>i. Suc i < length (processTimeSeriesData ts qs qd sel lq) \<longrightarrow>
       p_totalValue (processTimeSeriesData ts qs qd sel lq ! i) > 0 \<longrightarrow>
       p_totalValue (processTimeSeriesData ts qs qd sel lq ! Suc i) \<noteq> 0"
  unfolding processTimeSeriesData_def Let_def
  by (rule replayDates_no_regress [THEN conjunct2]) (metis stepDate_total)

subsection \<open>The merge of the time series\<close>

lemma mergeDate_presentOn:
  "mergeDate ss d =
     foldl mergeEntry
       \<lparr>p_date = d, p_cashValue = 0, p_equityValue = 0, p_totalValue = 0,
        p_realizedGain = 0, p_unrealizedGain = 0, p_egx30 = 0, p_hasQuotes = False,
        p_account = [], p_accountValues = []\<rparr>
       (presentOn d ss)"
proof -
  have "foldl (\<lambda>m series. case find (\<lambda>e. p_date e = d) series of
                               None \<Rightarrow> m | Some entry \<Rightarrow> mergeEntry m entry) m0 ss
        = foldl mergeEntry m0 (presentOn d ss)" for m0
    by (induction ss arbitrary: m0)
       (simp_all add: presentOn_def List.map_filter_simps split: option.splits)
  then show ?thesis by (simp add: mergeDate_def)
qed

lemma foldl_mergeEntry_sums:
  "p_cashValue (foldl mergeEntry m es) = p_cashValue m + sum_list (map p_cashValue es)"
  "p_equityValue (foldl mergeEntry m es) = p_equityValue m + sum_list (map p_equityValue es)"
  "p_totalValue (foldl mergeEntry m es) = p_totalValue m + sum_list (map p_totalValue es)"
  "p_realizedGain (foldl mergeEntry m es) = p_realizedGain m + sum_list (map p_realizedGain es)"
  "p_unrealizedGain (foldl mergeEntry m es)
     = p_unrealizedGain m + sum_list (map p_unrealizedGain es)"
  "p_date (foldl mergeEntry m es) = p_date m"
  by (induction es arbitrary: m; simp add: mergeEntry_def)+

lemma foldl_mergeEntry_hasQuotes:
  "p_hasQuotes (foldl mergeEntry m es) \<longleftrightarrow> p_hasQuotes m \<or> (\<exists>e \<in> set es. p_hasQuotes e)"
  by (induction es arbitrary: m) (auto simp: mergeEntry_def)

lemma foldl_mergeEntry_egx30:
  "p_egx30 (foldl mergeEntry m es) =
     (case filter (\<lambda>e. p_egx30 e \<noteq> 0) es of [] \<Rightarrow> p_egx30 m | x # xs \<Rightarrow> p_egx30 (last (x # xs)))"
proof (induction es rule: rev_induct)
  case Nil
  show ?case by simp
next
  case (snoc e es)
  show ?case
    using snoc.IH by (simp add: mergeEntry_def split: list.splits)
qed

lemma foldl_mergeEntry_accountValues:
  "map_of (p_accountValues (foldl mergeEntry m es)) a =
     (case find (\<lambda>e. p_account e = a \<and> a \<noteq> []) (rev es) of
        None \<Rightarrow> map_of (p_accountValues m) a
      | Some e \<Rightarrow> Some (p_totalValue e))"
proof (induction es rule: rev_induct)
  case Nil
  show ?case by simp
next
  case (snoc e es)
  show ?case
    using snoc.IH by (auto simp: mergeEntry_def update_conv' split: option.splits)
qed

lemma find_distinct_account:
  assumes "distinct (map p_account es)" and "e \<in> set es"
  shows "find (\<lambda>x. p_account x = p_account e) (rev es) = Some e"
proof (rule find_unique)
  from assms have inj: "inj_on p_account (set es)" by (simp add: distinct_map)
  show "\<forall>x \<in> set (rev es). p_account x = p_account e \<longrightarrow> x = e"
  proof (intro ballI impI)
    fix x
    assume "x \<in> set (rev es)" and "p_account x = p_account e"
    with inj assms(2) show "x = e" by (metis inj_onD set_rev)
  qed
  from assms show "e \<in> set (rev es)" by simp
  show "p_account e = p_account e" ..
qed

lemma merge_dates:
  "map p_date (mergeTimeSeriesData ss) = sort (remdups (concat (map (map p_date) ss)))"
  by (cases ss) (simp_all add: mergeTimeSeriesData_def Let_def comp_def mergeDate_presentOn
        foldl_mergeEntry_sums)

lemma mergeTimeSeriesData_member:
  assumes "m \<in> set (mergeTimeSeriesData ss)"
  shows "m = mergeDate ss (p_date m)"
proof -
  from assms obtain d where "m = mergeDate ss d"
    by (auto simp: mergeTimeSeriesData_def Let_def split: if_splits)
  moreover have "p_date (mergeDate ss d) = d"
    by (simp add: mergeDate_presentOn foldl_mergeEntry_sums)
  ultimately show ?thesis by simp
qed

subsection \<open>The pipeline\<close>

lemma processAccount_total:
  "m_totalValue (a_summaryMetrics (processAccount gt sm lq qs qd atm account)) =
     m_equityValue (a_summaryMetrics (processAccount gt sm lq qs qd atm account)) +
     m_cashBalance (a_summaryMetrics (processAccount gt sm lq qs qd atm account))"
  by (simp add: processAccount_def Let_def)

lemma try_Inr_cases:
  assumes "processPortfolioDataTry rt tt st qt sel = (msgs, Inr pd)"
  obtains accountsData ch cp ts cash eq rg ug where
    "selectAccountView sel accountsData = (ch, cp, ts, cash, eq, rg, ug)"
    "pd_accounts pd = accountsData"
    "pd_summaryMetrics pd =
       \<lparr>m_totalValue = eq + cash, m_cashBalance = cash, m_equityValue = eq,
        m_realizedGain = rg, m_unrealizedGain = ug\<rparr>"
    "\<forall>a \<in> set accountsData.
        m_totalValue (a_summaryMetrics a) =
          m_equityValue (a_summaryMetrics a) + m_cashBalance (a_summaryMetrics a)"
proof -
  from assms have ne: "\<not> (tt = [] \<or> st = [] \<or> qt = [])"
    by (auto simp: processPortfolioDataTry_def)
  define transactions where
    "transactions = standardizeTransactions rt (rt_parseTransactions rt tt)"
  define quotes where "quotes = standardizeQuotes rt (rt_parseQuotes rt qt)"
  from assms ne have nt: "\<not> list_ex trimThrows transactions"
    by (auto simp: processPortfolioDataTry_def Let_def transactions_def split: if_splits)
  define accountsData where
    "accountsData =
       map (processAccount (rt_getTime rt) (symbolMapOf (rt_parseSymbols rt st))
              (latestQuotesOf (rt_getTime rt) quotes) quotes
              (remdups (filter (\<lambda>d. d \<noteq> []) (map q_Date quotes)))
              (accountTransactionsMapOf transactions))
         (sort (map fst (accountTransactionsMapOf transactions)))"
  obtain ch cp ts cash eq rg ug where
    v: "selectAccountView sel accountsData = (ch, cp, ts, cash, eq, rg, ug)"
    by (metis prod_cases7)
  from assms ne nt v have pd: "pd =
      \<lparr>pd_accounts = accountsData, pd_currentHoldings = ch, pd_closedPositions = cp,
       pd_timeSeriesData = ts, pd_transactions = transactions,
       pd_summaryMetrics =
         \<lparr>m_totalValue = eq + cash, m_cashBalance = cash, m_equityValue = eq,
          m_realizedGain = rg, m_unrealizedGain = ug\<rparr>,
       pd_quotes = Some quotes,
       pd_latestQuotes = Some (latestQuotesOf (rt_getTime rt) quotes)\<rparr>"
    by (simp add: processPortfolioDataTry_def Let_def transactions_def [symmetric]
          quotes_def [symmetric] accountsData_def [symmetric])
  have "\<forall>a \<in> set accountsData.
          m_totalValue (a_summaryMetrics a) =
            m_equityValue (a_summaryMetrics a) + m_cashBalance (a_summaryMetrics a)"
    unfolding accountsData_def by (simp add: processAccount_total)
  with v pd show ?thesis by (intro that [of accountsData ch cp ts cash eq rg ug]) simp_all
qed

lemma selectAccountView_all:
  assumes "selectAccountView ''all'' accountsData = (ch, cp, ts, cash, eq, rg, ug)"
  shows "cash = sum_list (map (\<lambda>a. m_cashBalance (a_summaryMetrics a)) accountsData)"
    and "eq = sum_list (map (\<lambda>a. m_equityValue (a_summaryMetrics a)) accountsData)"
  using assms by (simp_all add: selectAccountView_def foldl_add_sum_list)

lemma try_Inr_summary:
  assumes "processPortfolioDataTry rt tt st qt sel = (msgs, Inr pd)"
  shows "m_totalValue (pd_summaryMetrics pd) =
           m_equityValue (pd_summaryMetrics pd) + m_cashBalance (pd_summaryMetrics pd)"
    and "\<forall>a \<in> set (pd_accounts pd).
           m_totalValue (a_summaryMetrics a) =
             m_equityValue (a_summaryMetrics a) + m_cashBalance (a_summaryMetrics a)"
    and "sel = ''all'' \<longrightarrow>
           m_equityValue (pd_summaryMetrics pd)
             = sum_list (map (\<lambda>a. m_equityValue (a_summaryMetrics a)) (pd_accounts pd)) \<and>
           m_cashBalance (pd_summaryMetrics pd)
             = sum_list (map (\<lambda>a. m_cashBalance (a_summaryMetrics a)) (pd_accounts pd))"
proof -
  from assms obtain accountsData ch cp ts cash eq rg ug where
    v: "selectAccountView sel accountsData = (ch, cp, ts, cash, eq, rg, ug)"
    and a: "pd_accounts pd = accountsData"
    and m: "pd_summaryMetrics pd =
       \<lparr>m_totalValue = eq + cash, m_cashBalance = cash, m_equityValue = eq,
        m_realizedGain = rg, m_unrealizedGain = ug\<rparr>"
    and p: "\<forall>a \<in> set accountsData.
        m_totalValue (a_summaryMetrics a) =
          m_equityValue (a_summaryMetrics a) + m_cashBalance (a_summaryMetrics a)"
    by (rule try_Inr_cases)
  from m show "m_totalValue (pd_summaryMetrics pd) =
           m_equityValue (pd_summaryMetrics pd) + m_cashBalance (pd_summaryMetrics pd)"
    by simp
  from p a show "\<forall>a \<in> set (pd_accounts pd).
           m_totalValue (a_summaryMetrics a) =
             m_equityValue (a_summaryMetrics a) + m_cashBalance (a_summaryMetrics a)"
    by simp
  show "sel = ''all'' \<longrightarrow>
           m_equityValue (pd_summaryMetrics pd)
             = sum_list (map (\<lambda>a. m_equityValue (a_summaryMetrics a)) (pd_accounts pd)) \<and>
           m_cashBalance (pd_summaryMetrics pd)
             = sum_list (map (\<lambda>a. m_cashBalance (a_summaryMetrics a)) (pd_accounts pd))"
  proof
    assume "sel = ''all''"
    with v have "selectAccountView ''all'' accountsData = (ch, cp, ts, cash, eq, rg, ug)"
      by simp
    from selectAccountView_all [OF this] m a show
      "m_equityValue (pd_summaryMetrics pd)
             = sum_list (map (\<lambda>a. m_equityValue (a_summaryMetrics a)) (pd_accounts pd)) \<and>
           m_cashBalance (pd_summaryMetrics pd)
             = sum_list (map (\<lambda>a. m_cashBalance (a_summaryMetrics a)) (pd_accounts pd))"
      by simp
  qed
qed

lemma run_of_try_Inr:
  assumes "processPortfolioDataTry rt tt st qt sel = (messages, Inr pd)"
  shows "processPortfolioDataRun rt tt st qt sel = (messages, pd)"
  using assms by (simp add: processPortfolioDataRun_def)

lemma run_of_try_Inl:
  assumes "processPortfolioDataTry rt tt st qt sel = (messages, Inl error)"
  shows "processPortfolioDataRun rt tt st qt sel =
           (messages @ [''Error in processPortfolioData: '' @ e_message error] @
              (if e_stack error \<noteq> [] then [''Stack trace: '' @ e_stack error] else []),
            emptyPortfolioData)"
  using assms by (simp add: processPortfolioDataRun_def processPortfolioDataCatch_def)

lemma try_missing_input:
  assumes "tt = [] \<or> st = [] \<or> qt = []"
  shows "processPortfolioDataTry rt tt st qt sel =
           ([''Error: Missing required CSV data''],
            Inl \<lparr>e_message = ''Missing required CSV data'', e_stack = rt_stack rt\<rparr>)"
  using assms by (auto simp: processPortfolioDataTry_def)

lemma trimThrows_standardize:
  "list_ex trimThrows (standardizeTransactions rt ts) = list_ex trimThrows ts"
  by (induction ts) (simp_all add: standardizeTransactions_def trimThrows_def)

lemma try_trim_error:
  assumes "tt \<noteq> []" and "st \<noteq> []" and "qt \<noteq> []"
    and "list_ex trimThrows (rt_parseTransactions rt tt)"
  shows "processPortfolioDataTry rt tt st qt sel =
           (parsingMessages (standardizeTransactions rt (rt_parseTransactions rt tt))
              (standardizeQuotes rt (rt_parseQuotes rt qt)),
            Inl (rt_trimError rt))"
  using assms by (simp add: processPortfolioDataTry_def Let_def trimThrows_standardize)

lemma try_present_input:
  assumes "tt \<noteq> []" and "st \<noteq> []" and "qt \<noteq> []"
    and "\<not> list_ex trimThrows (rt_parseTransactions rt tt)"
  shows "\<exists>messages pd. processPortfolioDataTry rt tt st qt sel = (messages, Inr pd)"
  using assms
  by (simp add: processPortfolioDataTry_def Let_def trimThrows_standardize split: prod.splits)

lemma try_Inl_cases:
  assumes "processPortfolioDataTry rt tt st qt sel = (messages, Inl error)"
  shows "(tt = [] \<or> st = [] \<or> qt = []) \<and>
           error = \<lparr>e_message = ''Missing required CSV data'', e_stack = rt_stack rt\<rparr>
         \<or> tt \<noteq> [] \<and> st \<noteq> [] \<and> qt \<noteq> [] \<and>
           list_ex trimThrows (rt_parseTransactions rt tt) \<and> error = rt_trimError rt"
proof (cases "tt = [] \<or> st = [] \<or> qt = []")
  case True
  with assms try_missing_input [OF True, of rt sel] show ?thesis by simp
next
  case False
  show ?thesis
  proof (cases "list_ex trimThrows (rt_parseTransactions rt tt)")
    case True
    with False assms try_trim_error [of tt st qt rt sel] show ?thesis by simp
  next
    case n: False
    with False try_present_input [of tt st qt rt sel] assms show ?thesis by auto
  qed
qed

subsection \<open>The examples, evaluated\<close>

lemma example_latestQuotes:
  "latestQuotesOf exampleGetTime exampleQuotes =
     [(Text ''X'', \<lparr>q_Date = ''2024-01-01'', q_Close = 12, q_Symbol = Text ''X''\<rparr>)]"
  by (simp add: latestQuotesOf_def exampleQuotes_def latestQuoteStep_def)

lemma example_groups: "groupBy holdingKey (exampleTransactions s) = [(''X-A'', exampleTransactions s)]"
  by (simp add: groupBy_def groupPush_def exampleTransactions_def exampleTransaction_def holdingKey_def cellString_def truthy_def strOr_def)

lemma example_split: "splitOn CHR ''-'' ''X-A'' = [''X'', ''A'']"
  by (simp add: splitOn_def)

lemma example_sort: "sortCmp (\<lambda>a b. timeLess exampleGetTime (t_Date a) (t_Date b)) (exampleTransactions s) = exampleTransactions s"
  by (simp add: sortCmp_def exampleTransactions_def exampleTransaction_def timeLess_def exampleGetTime_def)





lemma closedExample_quantity:
  "sum_list (map (\<lambda>t. numberOr0 (t_QtyChange t)) closedExampleTransactions) = 0"
  by (simp add: closedExampleTransactions_def exampleTransaction_def numberOr0_def)

lemma tie_latestQuotes:
  "map_of (latestQuotesOf exampleGetTime [tieQuoteFirst, tieQuoteSecond]) (Text ''X'') = Some tieQuoteFirst"
  by (simp add: latestQuotesOf_def latestQuoteStep_def tieQuoteFirst_def tieQuoteSecond_def
        timeLess_def exampleGetTime_def)

lemma example_presentOn:
  "presentOn ''2024-01-01'' exampleSeries = [examplePoint ''A'', examplePoint ''B'']"
  by (simp add: presentOn_def exampleSeries_def examplePoint_def List.map_filter_simps)

lemma example_merge: "mergeTimeSeriesData exampleSeries = [exampleMerged]"
  by (simp add: mergeTimeSeriesData_def exampleSeries_def examplePoint_def mergeDate_def
        mergeEntry_def exampleMerged_def)

lemma example_standardize:
  "standardizeTransactions exampleRuntime exampleRows = exampleRows"
  "standardizeQuotes exampleRuntime exampleQuotes = exampleQuotes"
  by (simp_all add: standardizeTransactions_def standardizeQuotes_def exampleRows_def
        exampleTransactions_def exampleTransaction_def cashTransaction_def exampleQuotes_def
        standardizeDate_def exampleRuntime_def exampleGetTime_def)

lemma example_accountTransactionsMap:
  "accountTransactionsMapOf exampleRows = [(''A'', exampleRows)]"
  by (simp add: accountTransactionsMapOf_def exampleRows_def exampleTransactions_def
        exampleTransaction_def cashTransaction_def trimmedAccount_def trim_def isSpace_def groupBy_def groupPush_def)

lemma example_rows_holdings:
  "processHoldings exampleGetTime exampleRows (symbolMapOf [])
     (latestQuotesOf exampleGetTime exampleQuotes) (Some ''Open Items'') False
   = [exampleHolding\<lparr>h_cashBalance := 100\<rparr>]"
  by (simp add: processHoldings_def exampleRows_def exampleTransactions_def
        exampleTransaction_def cashTransaction_def cashBalanceOfHoldings_def groupBy_def
        groupPush_def holdingKey_def cellString_def truthy_def strOr_def List.map_filter_simps holdingOfGroup_def
        splitOn_def example_latestQuotes sortCmp_def timeLess_def exampleGetTime_def
        sumField_def numberOr0_def displayStatusOf_def Let_def symbolMapOf_def
        exampleHolding_def)

lemma example_account_metrics:
  "a_summaryMetrics
     (processAccount exampleGetTime (symbolMapOf [])
        (latestQuotesOf exampleGetTime exampleQuotes) exampleQuotes qd
        [(''A'', exampleRows)] ''A'')
   = \<lparr>m_totalValue = 820, m_cashBalance = 100, m_equityValue = 720, m_realizedGain = 0,
      m_unrealizedGain = 70\<rparr>"
proof -
  have o: "filter (\<lambda>t. t_StatusTr t = ''Open Items'') exampleRows = exampleRows"
    and c: "filter (\<lambda>t. t_StatusTr t \<noteq> ''Open Items'' \<and> isClosedStatus (t_StatusTr t))
              exampleRows = []"
    and d: "filter (\<lambda>t. t_StatusTr t = ''Time Deposit'') exampleRows = []"
    and s: "sumField t_CashImpact exampleRows = 100"
    by (simp_all add: exampleRows_def exampleTransactions_def exampleTransaction_def
          cashTransaction_def sumField_def numberOr0_def)
  have e: "processHoldings exampleGetTime [] (symbolMapOf [])
             (latestQuotesOf exampleGetTime exampleQuotes) st incl = []" for st incl
    by (simp add: processHoldings_def groupBy_def List.map_filter_simps)
  show ?thesis
    by (simp add: processAccount_def Let_def o c d s e example_rows_holdings groupBy_def)
       (simp add: exampleHolding_def)
qed

lemma example_run_metrics:
  "\<exists>messages pd.
     processPortfolioDataTry exampleRuntime ''t'' ''s'' ''q'' ''all'' = (messages, Inr pd)
     \<and> map a_name (pd_accounts pd) = [''A'']
     \<and> pd_summaryMetrics pd =
         \<lparr>m_totalValue = 820, m_cashBalance = 100, m_equityValue = 720, m_realizedGain = 0,
          m_unrealizedGain = 70\<rparr>"
proof -
  have rt: "rt_parseTransactions exampleRuntime ''t'' = exampleRows"
      "rt_parseQuotes exampleRuntime ''q'' = exampleQuotes"
      "rt_parseSymbols exampleRuntime ''s'' = []"
      "rt_getTime exampleRuntime = exampleGetTime"
    by (simp_all add: exampleRuntime_def)
  have n: "a_name (processAccount gt sm lq qs qd atm account) = account"
    for gt sm lq qs qd atm account
    by (simp add: processAccount_def Let_def)
  have t: "\<not> list_ex trimThrows exampleRows"
    by (simp add: exampleRows_def exampleTransactions_def exampleTransaction_def
          cashTransaction_def trimThrows_def)
  show ?thesis
    by (simp add: processPortfolioDataTry_def Let_def rt example_standardize t
          example_accountTransactionsMap selectAccountView_def example_account_metrics n)
qed

lemma example_price_miss:
  "map h_Price (processHoldings exampleGetTime (exampleTransactions ''Open Items'') [] []
                  (Some ''Open Items'') False) = [0]"
  by (simp add: processHoldings_def example_groups List.map_filter_simps holdingOfGroup_def example_split
        example_sort Let_def)
     (simp add: exampleTransactions_def exampleTransaction_def sumField_def numberOr0_def)

lemma twoDay_fromQuotesList: "fromQuotesList exampleGetTime (Some twoDayQuotes) (Text ''X'') = Some 13"
  by (simp add: fromQuotesList_def twoDayQuotes_def latestFirst_def sortCmp_def timeLess_def
        exampleGetTime_def)

lemma overdrawn_series:
  "map p_totalValue (processTimeSeriesData overdrawnTransactions [] [] ''A'' []) = [100, -50, 0]"
  by (simp add: processTimeSeriesData_def overdrawnTransactions_def cashTransaction_def
        sortedDatesOf_def egx30MapOf_def quotesByDateAndSymbolOf_def initialReplayState_def
        stepDate_def valueDate_def emitPoint_def applyTransaction_def needsPrice_def
        numberOr0_def Let_def)

lemma withdrawn_series:
  "map p_totalValue (processTimeSeriesData withdrawnTransactions [] [] ''A'' []) = [100, 100]"
  by (simp add: processTimeSeriesData_def withdrawnTransactions_def cashTransaction_def
        sortedDatesOf_def egx30MapOf_def quotesByDateAndSymbolOf_def initialReplayState_def
        stepDate_def valueDate_def emitPoint_def applyTransaction_def needsPrice_def
        numberOr0_def Let_def)

lemma costFree_holdings:
  "map (\<lambda>h. (h_Symbol h, h_Quantity h, h_Cost h, h_Value h, h_UnrealizedGain h,
             h_UnrealizedGainPct h))
     (processHoldings exampleGetTime costFreeTransactions (symbolMapOf [])
        (latestQuotesOf exampleGetTime exampleQuotes) (Some ''Open Items'') False)
   = [(''X'', 10, 0, 120, 120, 0)]"
  by (simp add: processHoldings_def costFreeTransactions_def groupBy_def groupPush_def
        holdingKey_def cellString_def truthy_def strOr_def exampleTransaction_def List.map_filter_simps holdingOfGroup_def
        example_split example_latestQuotes sortCmp_def sumField_def numberOr0_def Let_def symbolMapOf_def)

lemma costFree_holdings_unquoted:
  "map (\<lambda>h. (h_Symbol h, h_Quantity h, h_Cost h, h_Value h, h_UnrealizedGain h,
             h_UnrealizedGainPct h))
     (processHoldings exampleGetTime costFreeTransactions [] [] (Some ''Open Items'') False)
   = [(''X'', 10, 0, 0, 0, 0)]"
  by (simp add: processHoldings_def costFreeTransactions_def groupBy_def groupPush_def
        holdingKey_def cellString_def truthy_def strOr_def exampleTransaction_def List.map_filter_simps holdingOfGroup_def
        example_split sortCmp_def sumField_def numberOr0_def Let_def)























section \<open>The claims\<close>






text \<open>
  Claim C5 at a failing input. One open transaction for ten units of X with a cost
  change of 0, and the quote of X at 12, give a holding of cost 0 and unrealized gain 120
  whose own percentage is 0, by the zero test of \<^verbatim>\<open>processHoldings\<close>. The current-holdings
  table for all accounts divides the unrealized gain by the cost with no zero test and
  no absolute value: its \<open>UnrealizedGainPct\<close> for X is \<^verbatim>\<open>Infinity\<close>, and \<^verbatim>\<open>NaN\<close> when
  X has no quote and the unrealized gain is 0 as well.
\<close>

theorem C5_aggregated_pct_not_finite:
  "map (\<lambda>g. (g_Cost g, g_UnrealizedGain g, g_UnrealizedGainPct g))
     (aggregatedHoldings
        (processHoldings exampleGetTime costFreeTransactions (symbolMapOf [])
           (latestQuotesOf exampleGetTime exampleQuotes) (Some ''Open Items'') False)
        ''all'')
     = [(0, 120, PosInfinity)]
   \<and> map (\<lambda>g. (g_Cost g, g_UnrealizedGain g, g_UnrealizedGainPct g))
       (aggregatedHoldings
          (processHoldings exampleGetTime costFreeTransactions [] [] (Some ''Open Items'') False)
          ''all'')
     = [(0, 0, NaN)]
   \<and> map h_UnrealizedGainPct
       (processHoldings exampleGetTime costFreeTransactions (symbolMapOf [])
          (latestQuotesOf exampleGetTime exampleQuotes) (Some ''Open Items'') False)
     = [0]"
proof -
  obtain h where h: "processHoldings exampleGetTime costFreeTransactions (symbolMapOf [])
           (latestQuotesOf exampleGetTime exampleQuotes) (Some ''Open Items'') False = [h]"
      and hf: "h_Cost h = 0" "h_UnrealizedGain h = 120" "h_UnrealizedGainPct h = 0"
    using costFree_holdings by auto
  obtain u where u: "processHoldings exampleGetTime costFreeTransactions [] []
                       (Some ''Open Items'') False = [u]"
      and uf: "h_Cost u = 0" "h_UnrealizedGain u = 0"
    using costFree_holdings_unquoted by auto
  show ?thesis
    by (simp add: h u aggregated_single hf uf jsDiv_def jsTimes_def)
qed

text \<open>
  Claim C6. The dates of the merged series are the union of the dates of the series,
  each once and in ascending order. For each merged point, with \<open>es\<close> the entries of
  the series that have its date (one for each such series, in the order of the series):
  the cash, equity, total, realized and unrealized values are the sums over \<open>es\<close>; the
  benchmark value is the last non-zero one in \<open>es\<close>, or 0 when there is none; the
  \<open>hasQuotes\<close> flag is the disjunction of the flags of \<open>es\<close>; and \<open>accountValues\<close> maps an
  account name to the total value of the last entry of \<open>es\<close> with that name, so to each
  account's own total value when the names are distinct. Two accounts that each report
  a total value of 100 on 2024-01-01 merge to one point with total value 200 whose
  \<open>accountValues\<close> maps both names to 100.
\<close>

theorem C6_merge_time_series:
  "set (map p_date (mergeTimeSeriesData ss)) = (\<Union>series \<in> set ss. p_date ` set series)
   \<and> sorted (map p_date (mergeTimeSeriesData ss))
   \<and> distinct (map p_date (mergeTimeSeriesData ss))
   \<and> (\<forall>m \<in> set (mergeTimeSeriesData ss).
         p_cashValue m = sum_list (map p_cashValue (presentOn (p_date m) ss)) \<and>
         p_equityValue m = sum_list (map p_equityValue (presentOn (p_date m) ss)) \<and>
         p_totalValue m = sum_list (map p_totalValue (presentOn (p_date m) ss)) \<and>
         p_realizedGain m = sum_list (map p_realizedGain (presentOn (p_date m) ss)) \<and>
         p_unrealizedGain m = sum_list (map p_unrealizedGain (presentOn (p_date m) ss)) \<and>
         p_egx30 m =
           (case filter (\<lambda>e. p_egx30 e \<noteq> 0) (presentOn (p_date m) ss) of
              [] \<Rightarrow> 0 | x # xs \<Rightarrow> p_egx30 (last (x # xs))) \<and>
         (p_hasQuotes m \<longleftrightarrow> (\<exists>e \<in> set (presentOn (p_date m) ss). p_hasQuotes e)) \<and>
         (\<forall>a. map_of (p_accountValues m) a =
               (case find (\<lambda>e. p_account e = a \<and> a \<noteq> []) (rev (presentOn (p_date m) ss)) of
                  None \<Rightarrow> None | Some e \<Rightarrow> Some (p_totalValue e))) \<and>
         (distinct (map p_account (presentOn (p_date m) ss)) \<longrightarrow>
            (\<forall>e \<in> set (presentOn (p_date m) ss).
               p_account e \<noteq> [] \<longrightarrow>
               map_of (p_accountValues m) (p_account e) = Some (p_totalValue e))))
   \<and> map (\<lambda>m. (p_date m, p_totalValue m, p_accountValues m)) (mergeTimeSeriesData exampleSeries)
       = [(''2024-01-01'', 200, [(''A'', 100), (''B'', 100)])]"
proof (intro conjI ballI)
  show "set (map p_date (mergeTimeSeriesData ss)) = (\<Union>series \<in> set ss. p_date ` set series)"
    by (simp only: merge_dates) auto
  show "sorted (map p_date (mergeTimeSeriesData ss))"
    by (simp only: merge_dates sorted_sort)
  show "distinct (map p_date (mergeTimeSeriesData ss))"
    by (simp only: merge_dates distinct_sort distinct_remdups)
  show "map (\<lambda>m. (p_date m, p_totalValue m, p_accountValues m)) (mergeTimeSeriesData exampleSeries)
       = [(''2024-01-01'', 200, [(''A'', 100), (''B'', 100)])]"
    by (simp add: example_merge) (simp add: exampleMerged_def)
next
  fix m
  assume "m \<in> set (mergeTimeSeriesData ss)"
  then have m: "m = mergeDate ss (p_date m)" by (rule mergeTimeSeriesData_member)
  let ?es = "presentOn (p_date m) ss"
  let ?m0 = "\<lparr>p_date = p_date m, p_cashValue = 0, p_equityValue = 0, p_totalValue = 0,
        p_realizedGain = 0, p_unrealizedGain = 0, p_egx30 = 0, p_hasQuotes = False,
        p_account = [], p_accountValues = []\<rparr>"
  from m have f: "m = foldl mergeEntry ?m0 ?es"
    by (simp add: mergeDate_presentOn)
  show "p_cashValue m = sum_list (map p_cashValue ?es)"
    by (subst f) (simp add: foldl_mergeEntry_sums)
  show "p_equityValue m = sum_list (map p_equityValue ?es)"
    by (subst f) (simp add: foldl_mergeEntry_sums)
  show "p_totalValue m = sum_list (map p_totalValue ?es)"
    by (subst f) (simp add: foldl_mergeEntry_sums)
  show "p_realizedGain m = sum_list (map p_realizedGain ?es)"
    by (subst f) (simp add: foldl_mergeEntry_sums)
  show "p_unrealizedGain m = sum_list (map p_unrealizedGain ?es)"
    by (subst f) (simp add: foldl_mergeEntry_sums)
  show "p_egx30 m = (case filter (\<lambda>e. p_egx30 e \<noteq> 0) ?es of
                      [] \<Rightarrow> 0 | x # xs \<Rightarrow> p_egx30 (last (x # xs)))"
    by (subst f) (simp add: foldl_mergeEntry_egx30 split: list.splits)
  show "p_hasQuotes m \<longleftrightarrow> (\<exists>e \<in> set ?es. p_hasQuotes e)"
    by (subst f) (simp add: foldl_mergeEntry_hasQuotes)
  have av: "map_of (p_accountValues m) a =
               (case find (\<lambda>e. p_account e = a \<and> a \<noteq> []) (rev ?es) of
                  None \<Rightarrow> None | Some e \<Rightarrow> Some (p_totalValue e))" for a
    by (subst f) (simp add: foldl_mergeEntry_accountValues split: option.splits)
  then show "\<forall>a. map_of (p_accountValues m) a =
               (case find (\<lambda>e. p_account e = a \<and> a \<noteq> []) (rev ?es) of
                  None \<Rightarrow> None | Some e \<Rightarrow> Some (p_totalValue e))"
    by blast
  show "distinct (map p_account ?es) \<longrightarrow>
          (\<forall>e \<in> set ?es. p_account e \<noteq> [] \<longrightarrow>
             map_of (p_accountValues m) (p_account e) = Some (p_totalValue e))"
  proof (intro impI ballI)
    fix e
    assume d: "distinct (map p_account ?es)" and e: "e \<in> set ?es" and n: "p_account e \<noteq> []"
    from find_distinct_account [OF d e] n
    have "find (\<lambda>x. p_account x = p_account e \<and> p_account e \<noteq> []) (rev ?es) = Some e"
      by simp
    then show "map_of (p_accountValues m) (p_account e) = Some (p_totalValue e)"
      by (simp add: av)
  qed
qed

theorem C6_merge_time_series_witness:
  "exampleMerged \<in> set (mergeTimeSeriesData exampleSeries)
   \<and> presentOn (p_date exampleMerged) exampleSeries = [examplePoint ''A'', examplePoint ''B'']
   \<and> p_totalValue exampleMerged = 100 + 100
   \<and> map_of (p_accountValues exampleMerged) ''A'' = Some 100
   \<and> map_of (p_accountValues exampleMerged) ''B'' = Some 100"
proof -
  have m: "exampleMerged \<in> set (mergeTimeSeriesData exampleSeries)"
    by (simp add: example_merge)
  have d: "p_date exampleMerged = ''2024-01-01''"
    by (simp add: exampleMerged_def)
  have p: "presentOn (p_date exampleMerged) exampleSeries = [examplePoint ''A'', examplePoint ''B'']"
    by (simp only: d example_presentOn)
  from C6_merge_time_series [of exampleSeries] m
  have "p_totalValue exampleMerged
          = sum_list (map p_totalValue (presentOn (p_date exampleMerged) exampleSeries))"
    by blast
  then have t: "p_totalValue exampleMerged = 100 + 100"
    by (simp add: p examplePoint_def)
  have "map_of (p_accountValues exampleMerged) ''A'' = Some 100"
       "map_of (p_accountValues exampleMerged) ''B'' = Some 100"
    by (simp_all add: exampleMerged_def)
  with m p t show ?thesis by simp
qed

text \<open>
  Claim C7, as the code has it. For a symbol whose quotes all have dates that parse, the
  latest-quote index holds the quote \<open>r\<close> of the maximum date: every quote of the symbol
  that comes before \<open>r\<close> in the input is strictly older, and every one that comes after
  \<open>r\<close> is older or of the same date. So among quotes that share the maximum date the
  one seen first in input order is retained: the comparison is the strict \<^verbatim>\<open>>\<close>, and a
  later quote of the same date does not replace the entry. A symbol without quotes has
  no entry.
\<close>

theorem C7_latest_quote:
  assumes "\<forall>q \<in> set quotes. q_Symbol q = s \<longrightarrow> getTime (q_Date q) = Some (time q)"
  shows "(filter (\<lambda>q. q_Symbol q = s) quotes = [] \<and> map_of (latestQuotesOf getTime quotes) s = None)
       \<or> (\<exists>pre r post.
            filter (\<lambda>q. q_Symbol q = s) quotes = pre @ r # post \<and>
            map_of (latestQuotesOf getTime quotes) s = Some r \<and>
            (\<forall>q \<in> set pre. time q < time r) \<and> (\<forall>q \<in> set post. time q \<le> time r))"
  using assms by (rule latestQuotesOf_first_max)

theorem C7_latest_quote_witness:
  "exampleGetTime (q_Date tieQuoteFirst) = Some 19723
   \<and> exampleGetTime (q_Date tieQuoteSecond) = Some 19723
   \<and> map_of (latestQuotesOf exampleGetTime [tieQuoteFirst, tieQuoteSecond]) (Text ''X'')
       = Some tieQuoteFirst"
proof -
  have t: "exampleGetTime (q_Date tieQuoteFirst) = Some 19723"
      "exampleGetTime (q_Date tieQuoteSecond) = Some 19723"
    by (simp_all add: tieQuoteFirst_def tieQuoteSecond_def exampleGetTime_def)
  have f: "filter (\<lambda>q. q_Symbol q = Text ''X'') [tieQuoteFirst, tieQuoteSecond]
             = [tieQuoteFirst, tieQuoteSecond]"
    by (simp add: tieQuoteFirst_def tieQuoteSecond_def)
  have "\<forall>q \<in> set [tieQuoteFirst, tieQuoteSecond].
          q_Symbol q = Text ''X'' \<longrightarrow> exampleGetTime (q_Date q) = Some ((\<lambda>q. 19723) q)"
    using t by simp
  from C7_latest_quote [OF this]
  obtain pre r post where d: "[tieQuoteFirst, tieQuoteSecond] = pre @ r # post"
      "map_of (latestQuotesOf exampleGetTime [tieQuoteFirst, tieQuoteSecond]) (Text ''X'') = Some r"
      "\<forall>q \<in> set pre. (19723::int) < 19723"
    unfolding f by blast
  from d(3) have "pre = []" by (cases pre) auto
  with d(1) have "r = tieQuoteFirst" by simp
  with d(2) t show ?thesis by simp
qed

text \<open>
  The claim as stated fails: of two quotes of one symbol with the same date, the index
  keeps the first, not the one seen later.
\<close>

theorem C7_counterexample:
  "q_Symbol tieQuoteFirst = q_Symbol tieQuoteSecond
   \<and> q_Date tieQuoteFirst = q_Date tieQuoteSecond
   \<and> map_of (latestQuotesOf exampleGetTime [tieQuoteFirst, tieQuoteSecond]) (Text ''X'')
       = Some tieQuoteFirst
   \<and> map_of (latestQuotesOf exampleGetTime [tieQuoteFirst, tieQuoteSecond]) (Text ''X'')
       \<noteq> Some tieQuoteSecond"
  by (simp add: tie_latestQuotes) (simp add: tieQuoteFirst_def tieQuoteSecond_def)

text \<open>
  Claim C10. In every run in which the \<^verbatim>\<open>try\<close> block returns, the value returned is
  that of the function, and \<open>totalValue = equityValue + cashBalance\<close> holds in its top-level
  summary metrics and in the summary metrics of each of its accounts; when the account
  "all" is selected, the top-level \<open>equityValue\<close> and \<open>cashBalance\<close> are the sums of
  those of the accounts.
\<close>

theorem C10_summary_total:
  assumes "processPortfolioDataTry rt transactionsText symbolsText quotesText selectedAccount
             = (messages, Inr pd)"
  shows "snd (processPortfolioData rt transactionsText symbolsText quotesText logFunction
                selectedAccount l) = pd
   \<and> m_totalValue (pd_summaryMetrics pd) =
       m_equityValue (pd_summaryMetrics pd) + m_cashBalance (pd_summaryMetrics pd)
   \<and> (\<forall>a \<in> set (pd_accounts pd).
         m_totalValue (a_summaryMetrics a) =
           m_equityValue (a_summaryMetrics a) + m_cashBalance (a_summaryMetrics a))
   \<and> (selectedAccount = ''all'' \<longrightarrow>
         m_equityValue (pd_summaryMetrics pd)
           = sum_list (map (\<lambda>a. m_equityValue (a_summaryMetrics a)) (pd_accounts pd)) \<and>
         m_cashBalance (pd_summaryMetrics pd)
           = sum_list (map (\<lambda>a. m_cashBalance (a_summaryMetrics a)) (pd_accounts pd)))"
proof (intro conjI)
  from run_of_try_Inr [OF assms]
  show "snd (processPortfolioData rt transactionsText symbolsText quotesText logFunction
                selectedAccount l) = pd"
    by (simp add: processPortfolioData_def Let_def)
qed (rule try_Inr_summary [OF assms])+

theorem C10_summary_total_witness:
  "\<exists>messages pd.
     processPortfolioDataTry exampleRuntime ''t'' ''s'' ''q'' ''all'' = (messages, Inr pd)
     \<and> map a_name (pd_accounts pd) = [''A'']
     \<and> m_equityValue (pd_summaryMetrics pd) = 720
     \<and> m_totalValue (pd_summaryMetrics pd) = 820
     \<and> m_cashBalance (pd_summaryMetrics pd) = 100
     \<and> m_totalValue (pd_summaryMetrics pd) =
         m_equityValue (pd_summaryMetrics pd) + m_cashBalance (pd_summaryMetrics pd)
     \<and> m_equityValue (pd_summaryMetrics pd)
         = sum_list (map (\<lambda>a. m_equityValue (a_summaryMetrics a)) (pd_accounts pd))"
proof -
  from example_run_metrics obtain messages pd where
    t: "processPortfolioDataTry exampleRuntime ''t'' ''s'' ''q'' ''all'' = (messages, Inr pd)"
    and a: "map a_name (pd_accounts pd) = [''A'']"
    and m: "pd_summaryMetrics pd =
         \<lparr>m_totalValue = 820, m_cashBalance = 100, m_equityValue = 720, m_realizedGain = 0,
          m_unrealizedGain = 70\<rparr>"
    by (elim exE conjE)
  from C10_summary_total [OF t, of "\<lambda>message l. l" "()"]
  have "m_totalValue (pd_summaryMetrics pd) =
         m_equityValue (pd_summaryMetrics pd) + m_cashBalance (pd_summaryMetrics pd)"
    and "m_equityValue (pd_summaryMetrics pd)
         = sum_list (map (\<lambda>a. m_equityValue (a_summaryMetrics a)) (pd_accounts pd))"
    by simp_all
  with t a m show ?thesis by simp
qed

end
